theory Spec2Isabelle
  imports Complex_Main
begin

section \<open>Data model (schemas/baseSchemas.py, utils/exceptions.py)\<close>

datatype AgentStatus = IDLE | RUNNING | COMPLETED | FAILED | TIMEOUT | CANCELLED

fun statusValue :: "AgentStatus \<Rightarrow> string" where
  "statusValue IDLE = ''idle''"
| "statusValue RUNNING = ''running''"
| "statusValue COMPLETED = ''completed''"
| "statusValue FAILED = ''failed''"
| "statusValue TIMEOUT = ''timeout''"
| "statusValue CANCELLED = ''cancelled''"

datatype AgentType = ORCHESTRATOR | SQL_AGENT | BI_AGENT | ETL_AGENT | ANALYTICS_AGENT | CUSTOM

text \<open>
  The exceptions of utils/exceptions.py that the modelled code raises, and the
  \<^verbatim>\<open>ValueError\<close> of \<^verbatim>\<open>asyncio.Semaphore\<close>. \<open>OtherError\<close> stands
  for any other \<^verbatim>\<open>Exception\<close> a collaborator raises, with its message.
\<close>

datatype exn =
    RecursionDepthExceeded int int
  | TokenLimitExceeded int int
  | AgentExecutionError string
  | ToolExecutionError string
  | ValueError string
  | MemoryError string
  | OtherError string

text \<open>Decimal rendering of an integer, as an f-string renders it.\<close>

definition digitChar :: "nat \<Rightarrow> char" where
  "digitChar d = char_of (48 + d)"

function showNat :: "nat \<Rightarrow> string" where
  "showNat n = (if n < 10 then [digitChar n] else showNat (n div 10) @ [digitChar (n mod 10)])"
  by pat_completeness auto
termination
  by (relation "measure (\<lambda>n. n)") auto

declare showNat.simps [simp del]

definition showInt :: "int \<Rightarrow> string" where
  "showInt i = (if i < 0 then CHR ''-'' # showNat (nat (- i)) else showNat (nat i))"

text \<open>\<^verbatim>\<open>str(e)\<close>: the message handed to \<^verbatim>\<open>Exception.__init__\<close>.\<close>

fun strExn :: "exn \<Rightarrow> string" where
  "strExn (RecursionDepthExceeded currentDepth maxDepth) =
     ''Max recursion depth exceeded: '' @ showInt currentDepth @ ''/'' @ showInt maxDepth"
| "strExn (TokenLimitExceeded tokensUsed tokenLimit) =
     ''Token limit exceeded: '' @ showInt tokensUsed @ ''/'' @ showInt tokenLimit"
| "strExn (AgentExecutionError message) = message"
| "strExn (ToolExecutionError message) = message"
| "strExn (ValueError message) = message"
| "strExn (MemoryError message) = message"
| "strExn (OtherError message) = message"

datatype ToolResult = ResultValue string | ErrorResult string

record ToolCallRecord =
  tcId :: string
  tcName :: string
  tcInput :: string
  tcResult :: ToolResult

text \<open>
  What \<^verbatim>\<open>_executeTask\<close> returns (the dict with keys response, toolCalls, status)
  and the entry \<^verbatim>\<open>{"error": str(result)}\<close> that the parallel branch stores.
\<close>

datatype ResultEntry =
    TaskResult "string option" "ToolCallRecord list" string
  | ErrorEntry string

record TaskDecomposition =
  taskId :: string
  description :: string
  assignedAgentType :: AgentType
  dependencies :: "string list"
  priority :: int
  estimatedTokens :: int
  status :: AgentStatus
  result :: "ResultEntry option"

section \<open>Planner (agents/orchestrator/agentOrchestrator.py, \<^verbatim>\<open>_buildExecutionPlan\<close>)\<close>

text \<open>
  \<^verbatim>\<open>taskMap = {task.taskId: task for task in tasks}\<close>: a later task with the same id
  replaces an earlier one.
\<close>

definition taskMapOf :: "TaskDecomposition list \<Rightarrow> (string \<rightharpoonup> TaskDecomposition)" where
  "taskMapOf tasks = map_of (rev (map (\<lambda>task. (taskId task, task)) tasks))"

text \<open>\<^verbatim>\<open>all(dep in completed for dep in task.dependencies)\<close> for the task of an id.\<close>

definition isReady :: "(string \<rightharpoonup> TaskDecomposition) \<Rightarrow> string set \<Rightarrow> string \<Rightarrow> bool" where
  "isReady taskMap completed tid =
     (case taskMap tid of
        None \<Rightarrow> False
      | Some task \<Rightarrow> list_all (\<lambda>dep. dep \<in> completed) (dependencies task))"

text \<open>
  The \<^verbatim>\<open>while remaining\<close> loop. \<open>remaining\<close> is a Python set of ids; the model keeps
  it as a duplicate-free list and enumerates it in list order, where Python enumerates
  \<^verbatim>\<open>list(remaining)\<close> in an unspecified order. Only the order of the tasks inside
  one wave depends on that choice. \<open>completed\<close> is updated after the inner loop, so a
  wave holds the ids that are ready with respect to the earlier waves only.
  \<^verbatim>\<open>taskMap[taskId]\<close> cannot raise: every id of \<open>remaining\<close> is a key of the map.
\<close>

definition currentWaveOf ::
  "(string \<rightharpoonup> TaskDecomposition) \<Rightarrow> string set \<Rightarrow> string list \<Rightarrow> TaskDecomposition list" where
  "currentWaveOf taskMap completed remaining =
     List.map_filter taskMap (filter (isReady taskMap completed) remaining)"

lemma map_filter_length_all_Some:
  "(\<And>x. x \<in> set xs \<Longrightarrow> f x \<noteq> None) \<Longrightarrow> length (List.map_filter f xs) = length xs"
  by (induction xs) (auto simp: List.map_filter_def)

lemma currentWaveOf_length:
  "length (currentWaveOf taskMap completed remaining)
     = length (filter (isReady taskMap completed) remaining)"
  unfolding currentWaveOf_def
  by (rule map_filter_length_all_Some) (auto simp: isReady_def split: option.splits)

function buildWaves ::
  "(string \<rightharpoonup> TaskDecomposition) \<Rightarrow> string set \<Rightarrow> string list \<Rightarrow> TaskDecomposition list list" where
  "buildWaves taskMap completed remaining =
     (if remaining = [] then []
      else let currentWave = currentWaveOf taskMap completed remaining in
        if currentWave = [] then []
        else currentWave #
          buildWaves taskMap
            (completed \<union> set (map taskId currentWave))
            (filter (\<lambda>tid. \<not> isReady taskMap completed tid) remaining))"
  by pat_completeness auto
termination
proof (relation "measure (\<lambda>(taskMap, completed, remaining). length remaining)", goal_cases)
  case 1
  show ?case by simp
next
  case (2 taskMap completed remaining currentWave)
  then have "filter (isReady taskMap completed) remaining \<noteq> []"
    using currentWaveOf_length [of taskMap completed remaining] by auto
  then obtain tid where "tid \<in> set remaining" and "isReady taskMap completed tid"
    by (auto simp: filter_empty_conv)
  then have "length (filter (\<lambda>tid. \<not> isReady taskMap completed tid) remaining) < length remaining"
    by (simp add: length_filter_less)
  then show ?case by simp
qed

declare buildWaves.simps [simp del]

text \<open>
  The plan is the dict with the two keys \<^verbatim>\<open>"sequential"\<close> and \<^verbatim>\<open>"parallel"\<close>.
  The loop over the waves extends one of the two lists by each wave.
\<close>

record ExecutionPlan =
  sequential :: "TaskDecomposition list"
  parallel :: "TaskDecomposition list"

fun classifyWaves :: "TaskDecomposition list list \<Rightarrow> ExecutionPlan \<Rightarrow> ExecutionPlan" where
  "classifyWaves [] plan = plan"
| "classifyWaves (wave # waves) plan =
     classifyWaves waves
       (if length wave > 1 then plan\<lparr>parallel := parallel plan @ wave\<rparr>
        else plan\<lparr>sequential := sequential plan @ wave\<rparr>)"

definition wavesOf :: "TaskDecomposition list \<Rightarrow> TaskDecomposition list list" where
  "wavesOf tasks = buildWaves (taskMapOf tasks) {} (remdups (map taskId tasks))"

definition buildExecutionPlan :: "TaskDecomposition list \<Rightarrow> ExecutionPlan" where
  "buildExecutionPlan tasks =
     classifyWaves (wavesOf tasks) \<lparr>sequential = [], parallel = []\<rparr>"

section \<open>Executor (agentOrchestrator.py, \<^verbatim>\<open>_executeParallelTasks\<close>)\<close>

text \<open>
  \<open>executeTask\<close> gives what awaiting \<^verbatim>\<open>self._executeTask(task, ...)\<close> settles to:
  the result dict, or the exception it raises. The tasks of the sequential list are awaited
  one after the other; the tasks of the parallel list are handed together to one
  \<^verbatim>\<open>asyncio.gather(..., return_exceptions=True)\<close>, whose result list has the order
  of its arguments. The model records this as a list of phases: a task of a later phase is
  started only after every task of the earlier phases has settled, and the tasks of one
  \<open>Gathered\<close> phase are in flight together.
\<close>

datatype Phase = Single TaskDecomposition | Gathered "TaskDecomposition list"

record ExecState =
  results :: "string \<rightharpoonup> ResultEntry"
  touched :: "TaskDecomposition list"
  phases :: "Phase list"

text \<open>How a call ends: it returns, it raises, or it never returns.\<close>

datatype Ending = Returns | Raises exn | NeverReturns

text \<open>
  The \<^verbatim>\<open>for task in executionPlan.get("sequential", [])\<close> loop. There is no
  \<^verbatim>\<open>try\<close> around the await: an exception leaves the loop and the function.
  \<open>touched\<close> collects the task objects as the loop has mutated them.
\<close>

fun runSequential ::
  "(TaskDecomposition \<Rightarrow> exn + ResultEntry) \<Rightarrow> TaskDecomposition list \<Rightarrow> ExecState
     \<Rightarrow> Ending \<times> ExecState" where
  "runSequential executeTask [] st = (Returns, st)"
| "runSequential executeTask (task # tasks) st =
     (let st1 = st\<lparr>phases := phases st @ [Single task]\<rparr> in
      case executeTask task of
        Inl e \<Rightarrow> (Raises e, st1)
      | Inr r \<Rightarrow>
          runSequential executeTask tasks
            (st1\<lparr>results := (results st1)(taskId task \<mapsto> r),
                 touched := touched st1 @ [task\<lparr>result := Some r, status := COMPLETED\<rparr>]\<rparr>))"

text \<open>
  The loop over \<^verbatim>\<open>zip(parallelTasks, parallelResults)\<close>:
  \<^verbatim>\<open>isinstance(result, Exception)\<close> separates the two branches.
\<close>

fun recordParallel ::
  "(TaskDecomposition \<Rightarrow> exn + ResultEntry) \<Rightarrow> TaskDecomposition list \<Rightarrow> ExecState \<Rightarrow> ExecState" where
  "recordParallel executeTask [] st = st"
| "recordParallel executeTask (task # tasks) st =
     recordParallel executeTask tasks
       (case executeTask task of
          Inl e \<Rightarrow>
            st\<lparr>results := (results st)(taskId task \<mapsto> ErrorEntry (strExn e)),
               touched := touched st @ [task\<lparr>status := FAILED\<rparr>]\<rparr>
        | Inr r \<Rightarrow>
            st\<lparr>results := (results st)(taskId task \<mapsto> r),
               touched := touched st @ [task\<lparr>result := Some r, status := COMPLETED\<rparr>]\<rparr>)"

text \<open>
  The parallel branch. \<^verbatim>\<open>asyncio.Semaphore(parallelLimit)\<close> raises
  \<^verbatim>\<open>ValueError\<close> for a negative value; with the value 0 no task ever acquires it
  and the gather never completes. \<open>maxParallelAgents\<close> is
  \<^verbatim>\<open>settings.agent.maxParallelAgents\<close>.
\<close>

definition runParallel ::
  "(TaskDecomposition \<Rightarrow> exn + ResultEntry) \<Rightarrow> int \<Rightarrow> TaskDecomposition list \<Rightarrow> ExecState
     \<Rightarrow> Ending \<times> ExecState" where
  "runParallel executeTask maxParallelAgents parallelTasks st =
     (if parallelTasks = [] then (Returns, st)
      else let parallelLimit = min (int (length parallelTasks)) maxParallelAgents in
        if parallelLimit < 0 then
          (Raises (ValueError ''Semaphore initial value must be >= 0''), st)
        else if parallelLimit = 0 then (NeverReturns, st)
        else (Returns,
              recordParallel executeTask parallelTasks
                (st\<lparr>phases := phases st @ [Gathered parallelTasks]\<rparr>)))"

definition runPlan ::
  "(TaskDecomposition \<Rightarrow> exn + ResultEntry) \<Rightarrow> int \<Rightarrow> ExecutionPlan \<Rightarrow> Ending \<times> ExecState" where
  "runPlan executeTask maxParallelAgents executionPlan =
     (case runSequential executeTask (sequential executionPlan)
             \<lparr>results = Map.empty, touched = [], phases = []\<rparr> of
        (Returns, st) \<Rightarrow> runParallel executeTask maxParallelAgents (parallel executionPlan) st
      | (ending, st) \<Rightarrow> (ending, st))"

text \<open>
  What the caller of \<^verbatim>\<open>_executeParallelTasks\<close> gets: the results dict, or the
  exception; \<open>None\<close> when the call never returns.
\<close>

definition executeParallelTasks ::
  "(TaskDecomposition \<Rightarrow> exn + ResultEntry) \<Rightarrow> int \<Rightarrow> ExecutionPlan
     \<Rightarrow> (exn + (string \<rightharpoonup> ResultEntry)) option" where
  "executeParallelTasks executeTask maxParallelAgents executionPlan =
     (case runPlan executeTask maxParallelAgents executionPlan of
        (Returns, st) \<Rightarrow> Some (Inr (results st))
      | (Raises e, st) \<Rightarrow> Some (Inl e)
      | (NeverReturns, st) \<Rightarrow> None)"

text \<open>
  The position of the phase in which a task id is dispatched, and the order the phases
  give: \<open>settledBeforeStart ps a b\<close> says that the task \<open>a\<close> has settled before the task
  \<open>b\<close> is started.
\<close>

fun phaseIds :: "Phase \<Rightarrow> string list" where
  "phaseIds (Single task) = [taskId task]"
| "phaseIds (Gathered tasks) = map taskId tasks"

fun phaseIndex :: "Phase list \<Rightarrow> string \<Rightarrow> nat option" where
  "phaseIndex [] tid = None"
| "phaseIndex (p # ps) tid =
     (if tid \<in> set (phaseIds p) then Some 0
      else map_option Suc (phaseIndex ps tid))"

definition settledBeforeStart :: "Phase list \<Rightarrow> string \<Rightarrow> string \<Rightarrow> bool" where
  "settledBeforeStart ps a b =
     (case (phaseIndex ps a, phaseIndex ps b) of
        (Some i, Some j) \<Rightarrow> i < j
      | _ \<Rightarrow> False)"

text \<open>The three subtasks of the scenario: A and B independent, C depending on both.\<close>

definition mkTask :: "string \<Rightarrow> string list \<Rightarrow> TaskDecomposition" where
  "mkTask tid deps =
     \<lparr>taskId = tid, description = ''subtask '' @ tid, assignedAgentType = SQL_AGENT,
      dependencies = deps, priority = 1, estimatedTokens = 1000, status = IDLE,
      result = None\<rparr>"

definition taskA :: TaskDecomposition where "taskA = mkTask ''A'' []"
definition taskB :: TaskDecomposition where "taskB = mkTask ''B'' []"
definition taskC :: TaskDecomposition where "taskC = mkTask ''C'' [''A'', ''B'']"

section \<open>Context assembly (memory/memoryManager.py, \<^verbatim>\<open>retrieveContext\<close>)\<close>

text \<open>\<^verbatim>\<open>bedrockClient.countTokens\<close>: \<^verbatim>\<open>len(text) // 4\<close>.\<close>

definition countTokens :: "string \<Rightarrow> int" where
  "countTokens text = int (length text) div 4"

record MemoryRecord =
  content :: string
  importance :: rat
  confidenceScore :: rat

text \<open>
  The four stores are external adapters; the model holds what they return for the session:
  \<open>workingStr\<close> is \<^verbatim>\<open>str(workingCtx)\<close> of the dict that
  \<^verbatim>\<open>workingMemory.getAll\<close> returns, \<open>episodicStored\<close> and \<open>semanticStored\<close> are the
  records in the order the adapters return them, \<open>proceduralStored\<close> the names of the
  procedural patterns. \<open>rankMemories\<close> is \<^verbatim>\<open>_rankMemories\<close>: it sorts by a floating
  point score that reads the clock, and is taken as a parameter here.
  \<open>topKSemanticRetrieval\<close> is the setting of that name.
\<close>

record MemoryStores =
  workingStr :: string
  episodicStored :: "MemoryRecord list"
  semanticStored :: "MemoryRecord list"
  proceduralStored :: "string list"
  rankMemories :: "MemoryRecord list \<Rightarrow> MemoryRecord list"
  topKSemanticRetrieval :: nat

datatype StoreCall = WorkingGetAll | EpisodicRetrieveBySession | SemanticSearch | ProceduralSearch

record Context =
  working :: string
  episodic :: "MemoryRecord list"
  semantic :: "MemoryRecord list"
  procedural :: "string list"
  totalTokens :: int
  storeCalls :: "StoreCall list"

text \<open>
  Both \<^verbatim>\<open>for memory in ...\<close> loops: a record is appended while
  \<^verbatim>\<open>totalTokens + tokens < maxTokens\<close>, and the first record that does not fit ends
  the loop. The result is the list of the appended records and the new running total.
\<close>

fun appendWhileFits :: "int \<Rightarrow> MemoryRecord list \<Rightarrow> MemoryRecord list \<times> int \<Rightarrow> MemoryRecord list \<times> int" where
  "appendWhileFits maxTokens [] (acc, runningTotal) = (acc, runningTotal)"
| "appendWhileFits maxTokens (memory # memories) (acc, runningTotal) =
     (let tokens = countTokens (content memory) in
      if runningTotal + tokens < maxTokens
      then appendWhileFits maxTokens memories (acc @ [memory], runningTotal + tokens)
      else (acc, runningTotal))"

definition afterWorking :: "MemoryStores \<Rightarrow> Context" where
  "afterWorking stores =
     \<lparr>working = workingStr stores, episodic = [], semantic = [], procedural = [],
      totalTokens = 0 + countTokens (workingStr stores), storeCalls = [WorkingGetAll]\<rparr>"

definition afterEpisodic :: "MemoryStores \<Rightarrow> int \<Rightarrow> Context" where
  "afterEpisodic stores maxTokens =
     (let context = afterWorking stores in
      if totalTokens context < maxTokens then
        (let recentEpisodic = take 10 (episodicStored stores);
             (included, runningTotal) = appendWhileFits maxTokens recentEpisodic ([], totalTokens context)
         in context\<lparr>episodic := included, totalTokens := runningTotal,
                    storeCalls := storeCalls context @ [EpisodicRetrieveBySession]\<rparr>)
      else context)"

text \<open>
  The guard of the semantic tier is \<^verbatim>\<open>context["totalTokens"] < maxTokens * 0.7\<close>, an
  integer compared with a float. The model compares \<open>10 * totalTokens < 7 * maxTokens\<close>
  over the integers; the two agree for every budget below \<open>2 ^ 49\<close>, where the rounding
  of the product cannot cross an integer.
\<close>

definition afterSemantic :: "MemoryStores \<Rightarrow> int \<Rightarrow> Context" where
  "afterSemantic stores maxTokens =
     (let context = afterEpisodic stores maxTokens in
      if 10 * totalTokens context < 7 * maxTokens then
        (let semanticMemories = take (topKSemanticRetrieval stores) (semanticStored stores);
             rankedMemories = rankMemories stores semanticMemories;
             (included, runningTotal) = appendWhileFits maxTokens rankedMemories ([], totalTokens context)
         in context\<lparr>semantic := included, totalTokens := runningTotal,
                    storeCalls := storeCalls context @ [SemanticSearch]\<rparr>)
      else context)"

definition retrieveContext :: "MemoryStores \<Rightarrow> string \<Rightarrow> int \<Rightarrow> Context" where
  "retrieveContext stores query maxTokens =
     (let context = afterSemantic stores maxTokens;
          proceduralPatterns = take 5 (proceduralStored stores)
      in context\<lparr>procedural := take 3 proceduralPatterns,
                 storeCalls := storeCalls context @ [ProceduralSearch]\<rparr>)"

text \<open>Stores for the examples: a working snapshot of \<open>n\<close> characters and nothing else.\<close>

definition storesWithWorking :: "nat \<Rightarrow> MemoryStores" where
  "storesWithWorking n =
     \<lparr>workingStr = replicate n (CHR ''w''), episodicStored = [], semanticStored = [],
      proceduralStored = [], rankMemories = (\<lambda>ms. ms), topKSemanticRetrieval = 10\<rparr>"

section \<open>Agent turn (core/agentEngine.py, \<^verbatim>\<open>AgentEngine.execute\<close>)\<close>

datatype Block = TextBlock string | ToolUseBlock string string string

datatype Content = Str string | Blocks "Block list" | ToolResultBlock string ToolResult

record Message =
  role :: string
  body :: Content

text \<open>
  A model response: its content blocks and \<^verbatim>\<open>usage.total_tokens\<close>, \<open>None\<close> when
  the key is absent (read as 0 by \<^verbatim>\<open>.get("total_tokens", 0)\<close>).
\<close>

record Response =
  blocks :: "Block list"
  usageTotalTokens :: "int option"

record ToolCall =
  callId :: string
  callName :: string
  callInput :: string

record ToolDefinition =
  name :: string

record AgentConfig =
  configId :: string
  systemPrompt :: string
  toolIds :: "string list"

record AgentExecution =
  exId :: string
  exAgentId :: string
  exSessionId :: string
  exUserMessage :: string
  agentResponse :: "string option"
  executionStatus :: AgentStatus
  toolCalls :: "ToolCallRecord list"
  tokensUsed :: int
  errorMessage :: "string option"
  exParentExecutionId :: "string option"
  exDepth :: int

text \<open>The episodic record that \<^verbatim>\<open>memory.storeInteraction\<close> writes.\<close>

record Interaction =
  inAgentId :: string
  inUserMessage :: string
  inAgentResponse :: string
  inToolsUsed :: "string list"
  inOutcome :: string
  inImportance :: rat

datatype Call =
    GetToolsForAgent
  | RetrieveContext
  | GetConversationHistory
  | InvokeModel
  | ToolExecute string
  | AppendToConversation
  | StoreInteraction

text \<open>
  What a turn can change: the conversation history and the episodic records of the session
  (both behind the memory collaborator), the registry \<^verbatim>\<open>_activeExecutions\<close> (its
  keys), and the log of the calls made to the collaborators, in order.
\<close>

record World =
  conversation :: "Message list"
  interactions :: "Interaction list"
  activeExecutions :: "string list"
  calls :: "Call list"

text \<open>
  The settings and the collaborators. \<open>invokeModel\<close> is \<^verbatim>\<open>bedrock.invokeModel\<close>
  for the system prompt and the message list of the call; it raises on a transport error.
  \<open>toolExecute\<close> is \<^verbatim>\<open>toolExecutor.execute\<close>. \<open>newExecutionId\<close> is the uuid
  that the execution record receives. \<open>rpushError\<close> and \<open>putItemError\<close> are the
  outcomes of the two storage writes behind the memory collaborator, the Redis
  \<^verbatim>\<open>rpush\<close> on the conversation list and the DynamoDB \<^verbatim>\<open>put_item\<close> of an
  episodic record, for the stored list and the new element: \<open>None\<close> if the write goes
  through, the text of the client's exception if it raises.
\<close>

record Env =
  maxRecursionDepth :: int
  maxTokenLimit :: int
  maxContextTokens :: int
  getToolsForAgent :: "string list \<Rightarrow> ToolDefinition list"
  invokeModel :: "string \<Rightarrow> Message list \<Rightarrow> exn + Response"
  toolExecute :: "ToolDefinition \<Rightarrow> string \<Rightarrow> string option \<Rightarrow> exn + string"
  memoryStores :: MemoryStores
  newExecutionId :: string
  rpushError :: "Message list \<Rightarrow> Message \<Rightarrow> string option"
  putItemError :: "Interaction list \<Rightarrow> Interaction \<Rightarrow> string option"

definition maxIterations :: nat where
  "maxIterations = 10"

definition logCall :: "Call \<Rightarrow> World \<Rightarrow> World" where
  "logCall c w = w\<lparr>calls := calls w @ [c]\<rparr>"

text \<open>\<^verbatim>\<open>bedrock.extractToolCalls\<close> and \<^verbatim>\<open>bedrock.extractTextResponse\<close>.\<close>

fun extractToolCalls :: "Block list \<Rightarrow> ToolCall list" where
  "extractToolCalls [] = []"
| "extractToolCalls (TextBlock t # bs) = extractToolCalls bs"
| "extractToolCalls (ToolUseBlock i n inp # bs) =
     \<lparr>callId = i, callName = n, callInput = inp\<rparr> # extractToolCalls bs"

fun extractTextResponse :: "Block list \<Rightarrow> string" where
  "extractTextResponse [] = []"
| "extractTextResponse (TextBlock t # bs) = t"
| "extractTextResponse (ToolUseBlock i n inp # bs) = extractTextResponse bs"

definition usageOf :: "Response \<Rightarrow> int" where
  "usageOf response = (case usageTotalTokens response of None \<Rightarrow> 0 | Some n \<Rightarrow> n)"

text \<open>\<^verbatim>\<open>_buildSystemPrompt\<close>.\<close>

fun joinWith :: "string \<Rightarrow> string list \<Rightarrow> string" where
  "joinWith sep [] = []"
| "joinWith sep [x] = x"
| "joinWith sep (x # y # ys) = x @ sep @ joinWith sep (y # ys)"

definition newline :: string where
  "newline = [char_of (10 :: nat)]"

definition buildSystemPrompt :: "AgentConfig \<Rightarrow> Context \<Rightarrow> string" where
  "buildSystemPrompt agentConfig context =
     (let p1 = systemPrompt agentConfig;
          p2 = (if semantic context \<noteq> [] then
                  p1 @ newline @ newline @ ''Relevant knowledge:'' @ newline
                     @ joinWith newline (map (\<lambda>mem. ''- '' @ content mem) (take 5 (semantic context)))
                else p1)
      in if procedural context \<noteq> [] then
           p2 @ newline @ newline @ ''Available patterns: '' @ joinWith '', '' (procedural context)
         else p2)"

record LoopState =
  messages :: "Message list"
  loopTokens :: int
  execution :: AgentExecution
  world :: World

text \<open>
  The \<^verbatim>\<open>for toolCall in toolCalls\<close> loop. A tool that is not among the loaded tools
  gives an error result; an exception of the executor is caught and becomes an error
  result. Every call is appended to \<^verbatim>\<open>execution.toolCalls\<close> and its result to the
  message list.
\<close>

fun runToolCalls ::
  "Env \<Rightarrow> ToolDefinition list \<Rightarrow> string option \<Rightarrow> ToolCall list \<Rightarrow> LoopState \<Rightarrow> LoopState" where
  "runToolCalls env tools authToken [] st = st"
| "runToolCalls env tools authToken (toolCall # rest) st =
     (let (toolResult, w) =
            (case find (\<lambda>t. name t = callName toolCall) tools of
               None \<Rightarrow> (ErrorResult (''Tool '' @ callName toolCall @ '' not found''), world st)
             | Some tool \<Rightarrow>
                 (case toolExecute env tool (callInput toolCall) authToken of
                    Inl e \<Rightarrow> (ErrorResult (strExn e), logCall (ToolExecute (callName toolCall)) (world st))
                  | Inr r \<Rightarrow> (ResultValue r, logCall (ToolExecute (callName toolCall)) (world st))))
      in runToolCalls env tools authToken rest
           (st\<lparr>execution := (execution st)\<lparr>toolCalls := toolCalls (execution st) @
                   [\<lparr>tcId = callId toolCall, tcName = callName toolCall,
                     tcInput = callInput toolCall, tcResult = toolResult\<rparr>]\<rparr>,
               messages := messages st @
                   [\<lparr>role = ''user'', body = ToolResultBlock (callId toolCall) toolResult\<rparr>],
               world := w\<rparr>))"

text \<open>
  The \<^verbatim>\<open>while iterations < maxIterations\<close> loop, from the loop state \<open>st\<close> with
  \<open>iterations\<close> iterations done. The result is the exception that left the loop, if
  any, the iteration count and the loop state at that point.
\<close>

function whileLoop ::
  "Env \<Rightarrow> ToolDefinition list \<Rightarrow> string \<Rightarrow> string option \<Rightarrow> nat \<Rightarrow> LoopState
     \<Rightarrow> exn option \<times> nat \<times> LoopState" where
  "whileLoop env tools sysPrompt authToken iterations st =
     (if iterations < maxIterations then
        (let iterations1 = iterations + 1;
             st1 = st\<lparr>world := logCall InvokeModel (world st)\<rparr>
         in case invokeModel env sysPrompt (messages st1) of
              Inl e \<Rightarrow> (Some e, iterations1, st1)
            | Inr response \<Rightarrow>
                (let st2 = st1\<lparr>loopTokens := loopTokens st1 + usageOf response\<rparr> in
                 if loopTokens st2 > maxTokenLimit env then
                   (Some (TokenLimitExceeded (loopTokens st2) (maxTokenLimit env)), iterations1, st2)
                 else if extractToolCalls (blocks response) = [] then
                   (None, iterations1,
                    st2\<lparr>execution := (execution st2)
                           \<lparr>agentResponse := Some (extractTextResponse (blocks response)),
                            executionStatus := COMPLETED,
                            tokensUsed := loopTokens st2\<rparr>\<rparr>)
                 else
                   whileLoop env tools sysPrompt authToken iterations1
                     (runToolCalls env tools authToken (extractToolCalls (blocks response))
                        (st2\<lparr>messages := messages st2 @
                               [\<lparr>role = ''assistant'', body = Blocks (blocks response)\<rparr>]\<rparr>))))
      else (None, iterations, st))"
  by pat_completeness auto
termination
  by (relation "measure (\<lambda>(env, tools, sysPrompt, authToken, iterations, st). maxIterations - iterations)")
     auto

declare whileLoop.simps [simp del]

text \<open>Python truth value of \<^verbatim>\<open>execution.agentResponse\<close>: neither None nor empty.\<close>

definition truthy :: "string option \<Rightarrow> bool" where
  "truthy s = (case s of None \<Rightarrow> False | Some t \<Rightarrow> t \<noteq> [])"

definition textOf :: "string option \<Rightarrow> string" where
  "textOf s = (case s of None \<Rightarrow> [] | Some t \<Rightarrow> t)"

text \<open>
  \<^verbatim>\<open>memory.appendToConversation\<close> (\<^verbatim>\<open>appendToList\<close> of the working memory) and
  \<^verbatim>\<open>memory.storeInteraction\<close> (\<^verbatim>\<open>store\<close> of the episodic memory): the write goes
  through, or the adapter raises \<^verbatim>\<open>MemoryError\<close> and nothing is written. The result
  is the exception, if any, and the world.
\<close>

definition appendToConversation :: "Env \<Rightarrow> Message \<Rightarrow> World \<Rightarrow> exn option \<times> World" where
  "appendToConversation env message w =
     (case rpushError env (conversation w) message of
        Some err \<Rightarrow>
          (Some (MemoryError (''Failed to append to list: '' @ err)),
           logCall AppendToConversation w)
      | None \<Rightarrow>
          (None, logCall AppendToConversation (w\<lparr>conversation := conversation w @ [message]\<rparr>)))"

definition storeInteraction :: "Env \<Rightarrow> Interaction \<Rightarrow> World \<Rightarrow> exn option \<times> World" where
  "storeInteraction env interaction w =
     (case putItemError env (interactions w) interaction of
        Some err \<Rightarrow>
          (Some (MemoryError (''Failed to store episodic memory: '' @ err)),
           logCall StoreInteraction w)
      | None \<Rightarrow>
          (None, logCall StoreInteraction (w\<lparr>interactions := interactions w @ [interaction]\<rparr>)))"

text \<open>
  The writes after the loop: the append of the user message, and, for a response that is
  present, the append of the assistant message and \<^verbatim>\<open>storeInteraction\<close>. The first
  write that raises ends them.
\<close>

definition persistTurn ::
  "Env \<Rightarrow> AgentConfig \<Rightarrow> string \<Rightarrow> int \<Rightarrow> AgentExecution \<Rightarrow> World \<Rightarrow> exn option \<times> World" where
  "persistTurn env agentConfig userMsg depthArg ex w =
     (case appendToConversation env \<lparr>role = ''user'', body = Str userMsg\<rparr> w of
        (Some e, w1) \<Rightarrow> (Some e, w1)
      | (None, w1) \<Rightarrow>
          if truthy (agentResponse ex) then
            (case appendToConversation env
                    \<lparr>role = ''assistant'', body = Str (textOf (agentResponse ex))\<rparr> w1 of
               (Some e, w2) \<Rightarrow> (Some e, w2)
             | (None, w2) \<Rightarrow>
                 storeInteraction env
                   \<lparr>inAgentId = configId agentConfig,
                    inUserMessage = userMsg,
                    inAgentResponse = textOf (agentResponse ex),
                    inToolsUsed = map tcName (toolCalls ex),
                    inOutcome = (if executionStatus ex = COMPLETED
                                 then ''success'' else ''failed''),
                    inImportance = (if depthArg = 0 then 6 / 10 else 4 / 10)\<rparr> w2)
          else (None, w1))"

text \<open>
  The \<^verbatim>\<open>except Exception\<close> handler: the record is marked failed with the message of
  the exception and \<^verbatim>\<open>AgentExecutionError\<close> is raised.
\<close>

definition exceptHandler :: "exn \<Rightarrow> AgentExecution \<Rightarrow> World \<Rightarrow> exn option \<times> AgentExecution \<times> World" where
  "exceptHandler e ex w =
     (Some (AgentExecutionError (''Agent execution failed: '' @ strExn e)),
      ex\<lparr>executionStatus := FAILED, errorMessage := Some (strExn e)\<rparr>,
      w)"

text \<open>
  What follows the loop. If no exception left the loop: the check of the iteration count
  and the writes; the record is returned if no write raises. An exception that left the
  loop, or that a write raises, reaches the handler. The result is the exception raised to
  the caller, if any, the execution record and the world.
\<close>

definition afterLoop ::
  "Env \<Rightarrow> AgentConfig \<Rightarrow> string \<Rightarrow> int \<Rightarrow> exn option \<times> nat \<times> LoopState
     \<Rightarrow> exn option \<times> AgentExecution \<times> World" where
  "afterLoop env agentConfig userMsg depthArg r =
     (case r of
        (Some e, iterations, st) \<Rightarrow> exceptHandler e (execution st) (world st)
      | (None, iterations, st) \<Rightarrow>
          (let ex1 = (if iterations \<ge> maxIterations
                      then (execution st)\<lparr>executionStatus := FAILED,
                                          errorMessage := Some ''Max iterations exceeded''\<rparr>
                      else execution st)
           in case persistTurn env agentConfig userMsg depthArg ex1 (world st) of
                (Some e, w1) \<Rightarrow> exceptHandler e ex1 w1
              | (None, w1) \<Rightarrow> (None, ex1, w1)))"

text \<open>The rest of a turn from a loop state: the loop and what follows it.\<close>

definition turnFrom ::
  "Env \<Rightarrow> AgentConfig \<Rightarrow> ToolDefinition list \<Rightarrow> string \<Rightarrow> string \<Rightarrow> string option \<Rightarrow> int
     \<Rightarrow> nat \<Rightarrow> LoopState \<Rightarrow> exn option \<times> AgentExecution \<times> World" where
  "turnFrom env agentConfig tools sysPrompt userMsg authToken depthArg iterations st =
     afterLoop env agentConfig userMsg depthArg
       (whileLoop env tools sysPrompt authToken iterations st)"

text \<open>
  The body of the \<^verbatim>\<open>try\<close> up to the loop: the tools, the context, the history (the
  last 20 messages) and the initial loop state.
\<close>

definition initialLoopState ::
  "string \<Rightarrow> AgentExecution \<Rightarrow> World \<Rightarrow> LoopState" where
  "initialLoopState userMsg ex w =
     (let w1 = logCall GetConversationHistory (logCall RetrieveContext (logCall GetToolsForAgent w));
          conversationHistory = drop (length (conversation w1) - 20) (conversation w1)
      in \<lparr>messages = conversationHistory @ [\<lparr>role = ''user'', body = Str userMsg\<rparr>],
          loopTokens = 0, execution = ex, world = w1\<rparr>)"

definition tryBlock ::
  "Env \<Rightarrow> AgentConfig \<Rightarrow> string \<Rightarrow> string option \<Rightarrow> int \<Rightarrow> AgentExecution \<Rightarrow> World
     \<Rightarrow> exn option \<times> AgentExecution \<times> World" where
  "tryBlock env agentConfig userMsg authToken depthArg ex w =
     (let tools = getToolsForAgent env (toolIds agentConfig);
          context = retrieveContext (memoryStores env) userMsg (maxContextTokens env);
          sysPrompt = buildSystemPrompt agentConfig context
      in turnFrom env agentConfig tools sysPrompt userMsg authToken depthArg 0
           (initialLoopState userMsg ex w))"

text \<open>
  The execution record that \<^verbatim>\<open>AgentExecution.model_construct\<close> builds: the given
  fields, and the defaults of the schema for the others.
\<close>

definition newExecution ::
  "Env \<Rightarrow> AgentConfig \<Rightarrow> string \<Rightarrow> string \<Rightarrow> string option \<Rightarrow> int \<Rightarrow> AgentExecution" where
  "newExecution env agentConfig userMsg session parentId depthArg =
     \<lparr>exId = newExecutionId env, exAgentId = configId agentConfig,
      exSessionId = session, exUserMessage = userMsg, agentResponse = None,
      executionStatus = RUNNING, toolCalls = [], tokensUsed = 0,
      errorMessage = None, exParentExecutionId = parentId, exDepth = depthArg\<rparr>"

text \<open>
  \<^verbatim>\<open>execute\<close>: the depth check before anything else, then the execution record, its
  registration, the \<^verbatim>\<open>try\<close> block, and the \<^verbatim>\<open>finally\<close> that removes the
  registration.
\<close>

definition execute ::
  "Env \<Rightarrow> AgentConfig \<Rightarrow> string \<Rightarrow> string \<Rightarrow> string option \<Rightarrow> string option \<Rightarrow> int \<Rightarrow> World
     \<Rightarrow> (exn + AgentExecution) \<times> World" where
  "execute env agentConfig userMsg session authToken parentId depthArg w =
     (if depthArg \<ge> maxRecursionDepth env then
        (Inl (RecursionDepthExceeded depthArg (maxRecursionDepth env)), w)
      else
        (let ex = newExecution env agentConfig userMsg session parentId depthArg;
             w1 = w\<lparr>activeExecutions := exId ex # activeExecutions w\<rparr>;
             (raised, ex1, w2) = tryBlock env agentConfig userMsg authToken depthArg ex w1;
             w3 = w2\<lparr>activeExecutions := removeAll (exId ex) (activeExecutions w2)\<rparr>
         in (case raised of None \<Rightarrow> Inr ex1 | Some e \<Rightarrow> Inl e, w3)))"

text \<open>
  \<^verbatim>\<open>_executeTask\<close> of the orchestrator: the agent of the task's type (registered or
  created by default, given by \<open>agentFor\<close>) runs one turn at depth 1.
\<close>

definition executeTask ::
  "Env \<Rightarrow> (AgentType \<Rightarrow> AgentConfig) \<Rightarrow> string \<Rightarrow> string option \<Rightarrow> World \<Rightarrow> TaskDecomposition
     \<Rightarrow> exn + ResultEntry" where
  "executeTask env agentFor session authToken w task =
     (case fst (execute env (agentFor (assignedAgentType task)) (description task)
                  session authToken None 1 w) of
        Inl e \<Rightarrow> Inl e
      | Inr ex \<Rightarrow> Inr (TaskResult (agentResponse ex) (toolCalls ex)
                         (statusValue (executionStatus ex))))"

section \<open>Example inputs\<close>

text \<open>
  Three records of 80 characters (20 tokens) in the episodic store, one record of 32
  characters (8 tokens) in the semantic store, a working snapshot of 40 characters.
\<close>

definition memoryOf :: "nat \<Rightarrow> MemoryRecord" where
  "memoryOf n = \<lparr>content = replicate n (CHR ''m''), importance = 1 / 2, confidenceScore = 1\<rparr>"

definition storesExample :: MemoryStores where
  "storesExample =
     \<lparr>workingStr = replicate 40 (CHR ''w''),
      episodicStored = [memoryOf 80, memoryOf 80, memoryOf 80],
      semanticStored = [memoryOf 32],
      proceduralStored = [''p1'', ''p2'', ''p3'', ''p4''],
      rankMemories = (\<lambda>ms. ms), topKSemanticRetrieval = 10\<rparr>"

definition agent0 :: AgentConfig where
  "agent0 = \<lparr>configId = ''agent-0'', systemPrompt = ''You are a helpful assistant.'',
             toolIds = [''search'']\<rparr>"

definition world0 :: World where
  "world0 = \<lparr>conversation = [], interactions = [], activeExecutions = [], calls = []\<rparr>"

definition toolUseResponse :: "int \<Rightarrow> Response" where
  "toolUseResponse n =
     \<lparr>blocks = [ToolUseBlock ''call'' ''search'' ''{}''], usageTotalTokens = Some n\<rparr>"

definition textResponse :: "string \<Rightarrow> int \<Rightarrow> Response" where
  "textResponse t n = \<lparr>blocks = [TextBlock t], usageTotalTokens = Some n\<rparr>"

text \<open>
  An environment with the default settings and storage writes that go through, whose
  model is given by \<open>model\<close>, and three
  models: one that answers at once, one that asks for a tool on its first nine calls and
  answers on the tenth (each iteration with one tool call adds two messages to the one
  user message), and one whose calls each report 60000 tokens.
\<close>

definition envWith :: "(string \<Rightarrow> Message list \<Rightarrow> exn + Response) \<Rightarrow> Env" where
  "envWith model =
     \<lparr>maxRecursionDepth = 5, maxTokenLimit = 100000, maxContextTokens = 200000,
      getToolsForAgent = (\<lambda>ids. [\<lparr>name = ''search''\<rparr>]),
      invokeModel = model,
      toolExecute = (\<lambda>tool inp auth. Inr ''found''),
      memoryStores = storesExample,
      newExecutionId = ''exec-1'',
      rpushError = (\<lambda>stored message. None),
      putItemError = (\<lambda>stored interaction. None)\<rparr>"

definition answerAtOnce :: "string \<Rightarrow> Message list \<Rightarrow> exn + Response" where
  "answerAtOnce sp ms = Inr (textResponse ''hello'' 10)"

definition answerOnTenth :: "string \<Rightarrow> Message list \<Rightarrow> exn + Response" where
  "answerOnTenth sp ms =
     (if length ms < 19 then Inr (toolUseResponse 10) else Inr (textResponse ''late answer'' 10))"

definition hungryModel :: "string \<Rightarrow> Message list \<Rightarrow> exn + Response" where
  "hungryModel sp ms = Inr (toolUseResponse 60000)"

text \<open>
  Task outcomes for the examples: one in which the task A raises and every other task
  returns, and the outcome of running a task's turn against the model that reports 60000
  tokens per call.
\<close>

definition failingForA :: "TaskDecomposition \<Rightarrow> exn + ResultEntry" where
  "failingForA task =
     (if taskId task = ''A'' then Inl (OtherError ''boom'')
      else Inr (TaskResult (Some ''done'') [] ''completed''))"

definition hungryOutcome :: "TaskDecomposition \<Rightarrow> exn + ResultEntry" where
  "hungryOutcome = executeTask (envWith hungryModel) (\<lambda>ty. agent0) ''s'' None world0"

text \<open>
  A loop state for the examples: its message list has the 19 messages that nine
  iterations with one tool call each leave behind.
\<close>

definition execution0 :: AgentExecution where
  "execution0 = newExecution (envWith answerAtOnce) agent0 ''hi'' ''s'' None 0"

definition lateState :: LoopState where
  "lateState =
     \<lparr>messages = replicate 19 \<lparr>role = ''user'', body = Str ''hi''\<rparr>, loopTokens = 90,
      execution = execution0, world = world0\<rparr>"

text \<open>
  The loop that \<^verbatim>\<open>execute\<close> runs once the depth check has passed: the tools, the
  system prompt and the initial loop state as the \<^verbatim>\<open>try\<close> block builds them.
\<close>

definition loopResult ::
  "Env \<Rightarrow> AgentConfig \<Rightarrow> string \<Rightarrow> string \<Rightarrow> string option \<Rightarrow> string option \<Rightarrow> int \<Rightarrow> World
     \<Rightarrow> exn option \<times> nat \<times> LoopState" where
  "loopResult env agentConfig userMsg session authToken parentId depthArg w =
     whileLoop env (getToolsForAgent env (toolIds agentConfig))
       (buildSystemPrompt agentConfig
          (retrieveContext (memoryStores env) userMsg (maxContextTokens env)))
       authToken 0
       (initialLoopState userMsg
          (newExecution env agentConfig userMsg session parentId depthArg)
          (w\<lparr>activeExecutions := newExecutionId env # activeExecutions w\<rparr>))"

definition helloExecution :: AgentExecution where
  "helloExecution =
     execution0\<lparr>agentResponse := Some ''hello'', executionStatus := COMPLETED, tokensUsed := 10\<rparr>"


text \<open>
  An iteration of the loop in which the model asks for tools. \<open>toolIteration\<close> is the
  loop state at the end of such an iteration with the response \<open>response\<close>; \<open>afterRounds\<close>
  is the loop state after one such iteration for each response of a list, in order; and
  \<open>toolRounds\<close> says that the model does return these responses along the way, that each
  of them asks for a tool, and that the usage accumulated with each stays within the
  token ceiling.
\<close>

definition toolIteration ::
  "Env \<Rightarrow> ToolDefinition list \<Rightarrow> string option \<Rightarrow> LoopState \<Rightarrow> Response \<Rightarrow> LoopState" where
  "toolIteration env tools authToken st response =
     runToolCalls env tools authToken (extractToolCalls (blocks response))
       (st\<lparr>world := logCall InvokeModel (world st),
          loopTokens := loopTokens st + usageOf response,
          messages := messages st @ [\<lparr>role = ''assistant'', body = Blocks (blocks response)\<rparr>]\<rparr>)"

fun afterRounds ::
  "Env \<Rightarrow> ToolDefinition list \<Rightarrow> string option \<Rightarrow> LoopState \<Rightarrow> Response list \<Rightarrow> LoopState" where
  "afterRounds env tools authToken st [] = st"
| "afterRounds env tools authToken st (response # responses) =
     afterRounds env tools authToken (toolIteration env tools authToken st response) responses"

fun toolRounds ::
  "Env \<Rightarrow> ToolDefinition list \<Rightarrow> string \<Rightarrow> string option \<Rightarrow> LoopState \<Rightarrow> Response list \<Rightarrow> bool" where
  "toolRounds env tools sysPrompt authToken st [] = True"
| "toolRounds env tools sysPrompt authToken st (response # responses) =
     (invokeModel env sysPrompt (messages st) = Inr response
      \<and> \<not> loopTokens st + usageOf response > maxTokenLimit env
      \<and> extractToolCalls (blocks response) \<noteq> []
      \<and> toolRounds env tools sysPrompt authToken
            (toolIteration env tools authToken st response) responses)"

text \<open>
  The loop state with which \<^verbatim>\<open>execute\<close> enters the loop in the examples, and an
  environment whose first storage write of an episodic record raises.
\<close>

definition startState :: LoopState where
  "startState =
     \<lparr>messages = [\<lparr>role = ''user'', body = Str ''hi''\<rparr>], loopTokens = 0,
      execution = execution0, world = world0\<rparr>"

definition envStoreFails :: Env where
  "envStoreFails = (envWith answerAtOnce)\<lparr>putItemError := (\<lambda>stored interaction. Some ''down'')\<rparr>"

section \<open>Planner and executor: theorems\<close>

lemma recordParallel_other:
  "tid \<notin> taskId ` set ps \<Longrightarrow> results (recordParallel f ps st) tid = results st tid"
  by (induction ps arbitrary: st) (auto split: sum.splits)

lemma recordParallel_results:
  "distinct (map taskId ps) \<Longrightarrow> t \<in> set ps \<Longrightarrow>
   results (recordParallel f ps st) (taskId t)
     = Some (case f t of Inl e \<Rightarrow> ErrorEntry (strExn e) | Inr r \<Rightarrow> r)"
proof (induction ps arbitrary: st)
  case Nil
  then show ?case by simp
next
  case (Cons p ps)
  show ?case
  proof (cases "t = p")
    case True
    with Cons.prems have "taskId t \<notin> taskId ` set ps" by auto
    then show ?thesis
      using True by (simp add: recordParallel_other split: sum.splits)
  next
    case False
    with Cons.prems have "t \<in> set ps" and "distinct (map taskId ps)" by auto
    then show ?thesis
      using Cons.IH by simp
  qed
qed

lemma runSequential_all_return:
  "\<forall>s \<in> set ss. \<not> isl (f s) \<Longrightarrow> fst (runSequential f ss st) = Returns"
proof (induction ss arbitrary: st)
  case Nil
  then show ?case by simp
next
  case (Cons s ss)
  then obtain r where "f s = Inr r" by (cases "f s") auto
  with Cons show ?case by (simp add: Let_def)
qed

text \<open>
  C1. For A and B without dependencies and C depending on both, the planner computes the
  waves [A, B] and [C], but the plan it returns keeps only the two buckets: C alone in the
  sequential list and A, B in the parallel list. The wave order is not part of the plan.
\<close>

theorem buildExecutionPlan_loses_wave_order:
  "wavesOf [taskA, taskB, taskC] = [[taskA, taskB], [taskC]]
   \<and> buildExecutionPlan [taskA, taskB, taskC]
       = \<lparr>sequential = [taskC], parallel = [taskA, taskB]\<rparr>"
  by code_simp

text \<open>
  C2. Running the plan of the same three subtasks dispatches C, which depends on A and B,
  in the first phase and gathers A and B only after C has settled.
\<close>

theorem dependent_task_runs_first:
  "phases (snd (runPlan (\<lambda>task. Inr (TaskResult None [] ''completed'')) 10
                  (buildExecutionPlan [taskA, taskB, taskC])))
     = [Single taskC, Gathered [taskA, taskB]]
   \<and> dependencies taskC = [''A'', ''B'']
   \<and> settledBeforeStart [Single taskC, Gathered [taskA, taskB]] ''C'' ''A''
   \<and> settledBeforeStart [Single taskC, Gathered [taskA, taskB]] ''C'' ''B''
   \<and> \<not> settledBeforeStart [Single taskC, Gathered [taskA, taskB]] ''A'' ''C''
   \<and> \<not> settledBeforeStart [Single taskC, Gathered [taskA, taskB]] ''B'' ''C''"
  by code_simp

text \<open>
  C4. When the parallel branch is reached (no sequential task raised) and the semaphore
  admits at least one task, the call returns a results mapping in which every task of the
  parallel list, its id being unique in the list, has an entry: the error entry with the
  message of its exception if it raised, its result otherwise. An exception of one task
  leaves the entries of the others in place.
\<close>

theorem parallel_failures_are_recorded:
  assumes "0 < maxPar"
    and "\<forall>s \<in> set (sequential plan). \<not> isl (executeTaskFn s)"
    and "distinct (map taskId (parallel plan))"
    and "t \<in> set (parallel plan)"
  shows "case executeParallelTasks executeTaskFn maxPar plan of
           Some (Inr m) \<Rightarrow>
             m (taskId t) = Some (case executeTaskFn t of
                                    Inl e \<Rightarrow> ErrorEntry (strExn e)
                                  | Inr r \<Rightarrow> r)
         | Some (Inl e) \<Rightarrow> False
         | None \<Rightarrow> False"
proof -
  obtain st where seq:
    "runSequential executeTaskFn (sequential plan)
       \<lparr>results = Map.empty, touched = [], phases = []\<rparr> = (Returns, st)"
    using runSequential_all_return [OF assms(2)] by (metis fst_conv surj_pair)
  have ne: "parallel plan \<noteq> []" using assms(4) by auto
  have "runPlan executeTaskFn maxPar plan
          = (Returns, recordParallel executeTaskFn (parallel plan)
                        (st\<lparr>phases := phases st @ [Gathered (parallel plan)]\<rparr>))"
    using seq ne assms(1) by (auto simp: runPlan_def runParallel_def Let_def min_def)
  then show ?thesis
    using recordParallel_results [OF assms(3) assms(4)]
    by (simp add: executeParallelTasks_def)
qed

theorem parallel_failures_are_recorded_witness:
  "case executeParallelTasks failingForA 10 \<lparr>sequential = [taskC], parallel = [taskA, taskB]\<rparr> of
     Some (Inr m) \<Rightarrow> m ''B'' = Some (TaskResult (Some ''done'') [] ''completed'')
   | Some (Inl e) \<Rightarrow> False
   | None \<Rightarrow> False"
proof -
  let ?plan = "\<lparr>sequential = [taskC], parallel = [taskA, taskB]\<rparr>"
  have h1: "(0::int) < 10" by simp
  have h2: "\<forall>s \<in> set (sequential ?plan). \<not> isl (failingForA s)"
    by (simp add: failingForA_def taskC_def mkTask_def)
  have h3: "distinct (map taskId (parallel ?plan))"
    by (simp add: taskA_def taskB_def mkTask_def)
  have h4: "taskB \<in> set (parallel ?plan)" by simp
  have idB: "taskId taskB = ''B''"
    by (simp add: taskB_def mkTask_def)
  have outB: "failingForA taskB = Inr (TaskResult (Some ''done'') [] ''completed'')"
    by (simp add: failingForA_def taskB_def mkTask_def)
  show ?thesis
    using parallel_failures_are_recorded [OF h1 h2 h3 h4]
    by (auto simp: idB outB split: option.splits sum.splits)
qed

lemma showInt_120000: "showInt 120000 = ''120000''"
  by (simp add: showInt_def showNat.simps digitChar_def char_of_def bit_0 bit_Suc_0_iff)

lemma showInt_100000: "showInt 100000 = ''100000''"
  by (simp add: showInt_def showNat.simps digitChar_def char_of_def bit_0 bit_Suc_0_iff)

lemma showInt_5: "showInt 5 = ''5''"
  by (simp add: showInt_def showNat.simps digitChar_def char_of_def bit_0 bit_Suc_0_iff)

section \<open>Agent turn: lemmas about the loop\<close>

lemma whileLoop_raise_step:
  assumes "iterations < maxIterations"
    and "invokeModel env sp (messages st) = Inr response"
    and "loopTokens st + usageOf response > maxTokenLimit env"
  shows "whileLoop env tools sp auth iterations st
           = (Some (TokenLimitExceeded (loopTokens st + usageOf response) (maxTokenLimit env)),
              iterations + 1,
              st\<lparr>world := logCall InvokeModel (world st),
                 loopTokens := loopTokens st + usageOf response\<rparr>)"
  using assms by (subst whileLoop.simps) (simp add: Let_def)

lemma whileLoop_model_error_step:
  assumes "iterations < maxIterations"
    and "invokeModel env sp (messages st) = Inl e"
  shows "whileLoop env tools sp auth iterations st
           = (Some e, iterations + 1, st\<lparr>world := logCall InvokeModel (world st)\<rparr>)"
  using assms by (subst whileLoop.simps) (simp add: Let_def)

lemma whileLoop_final_step:
  assumes "iterations < maxIterations"
    and "invokeModel env sp (messages st) = Inr response"
    and "\<not> loopTokens st + usageOf response > maxTokenLimit env"
    and "extractToolCalls (blocks response) = []"
  shows "whileLoop env tools sp auth iterations st
           = (None, iterations + 1,
              st\<lparr>world := logCall InvokeModel (world st),
                 loopTokens := loopTokens st + usageOf response,
                 execution := (execution st)
                   \<lparr>agentResponse := Some (extractTextResponse (blocks response)),
                    executionStatus := COMPLETED,
                    tokensUsed := loopTokens st + usageOf response\<rparr>\<rparr>)"
  using assms by (subst whileLoop.simps) (simp add: Let_def)

lemma whileLoop_tool_step:
  assumes "iterations < maxIterations"
    and "invokeModel env sp (messages st) = Inr response"
    and "\<not> loopTokens st + usageOf response > maxTokenLimit env"
    and "extractToolCalls (blocks response) \<noteq> []"
  shows "whileLoop env tools sp auth iterations st
           = whileLoop env tools sp auth (iterations + 1)
               (runToolCalls env tools auth (extractToolCalls (blocks response))
                  (st\<lparr>world := logCall InvokeModel (world st),
                     loopTokens := loopTokens st + usageOf response,
                     messages := messages st @
                       [\<lparr>role = ''assistant'', body = Blocks (blocks response)\<rparr>]\<rparr>))"
  using assms by (subst whileLoop.simps) (simp add: Let_def)

lemma whileLoop_exhausted:
  "\<not> iterations < maxIterations \<Longrightarrow> whileLoop env tools sp auth iterations st = (None, iterations, st)"
  by (subst whileLoop.simps) simp

lemma runToolCalls_keeps:
  "loopTokens (runToolCalls env tools auth tcs st) = loopTokens st
   \<and> conversation (world (runToolCalls env tools auth tcs st)) = conversation (world st)
   \<and> interactions (world (runToolCalls env tools auth tcs st)) = interactions (world st)
   \<and> activeExecutions (world (runToolCalls env tools auth tcs st)) = activeExecutions (world st)"
  by (induction tcs arbitrary: st)
     (auto simp: logCall_def Let_def split: option.splits sum.splits prod.splits)

lemma whileLoop_keeps:
  "conversation (world (snd (snd (whileLoop env tools sp auth n st)))) = conversation (world st)
   \<and> interactions (world (snd (snd (whileLoop env tools sp auth n st)))) = interactions (world st)
   \<and> activeExecutions (world (snd (snd (whileLoop env tools sp auth n st))))
       = activeExecutions (world st)"
proof (induction "maxIterations - n" arbitrary: n st)
  case 0
  then have "\<not> n < maxIterations" by simp
  then show ?case by (simp add: whileLoop_exhausted)
next
  case (Suc k)
  then have lt: "n < maxIterations" by simp
  show ?case
  proof (cases "invokeModel env sp (messages st)")
    case (Inl e)
    show ?thesis
      by (simp add: whileLoop_model_error_step [OF lt Inl] logCall_def)
  next
    case (Inr response)
    show ?thesis
    proof (cases "loopTokens st + usageOf response > maxTokenLimit env")
      case True
      show ?thesis
        by (simp add: whileLoop_raise_step [OF lt Inr True] logCall_def)
    next
      case False
      show ?thesis
      proof (cases "extractToolCalls (blocks response) = []")
        case True
        show ?thesis
          by (simp add: whileLoop_final_step [OF lt Inr False True] logCall_def)
      next
        case nonempty: False
        have k: "k = maxIterations - (n + 1)" using Suc.hyps(2) by simp
        show ?thesis
          using Suc.hyps(1) [OF k]
          by (simp add: whileLoop_tool_step [OF lt Inr False nonempty] runToolCalls_keeps
                logCall_def)
      qed
    qed
  qed
qed

lemma afterLoop_raised:
  "afterLoop env agentConfig userMsg depthArg (Some e, n, st)
     = (Some (AgentExecutionError (''Agent execution failed: '' @ strExn e)),
        (execution st)\<lparr>executionStatus := FAILED, errorMessage := Some (strExn e)\<rparr>,
        world st)"
  by (simp add: afterLoop_def exceptHandler_def)

lemma appendToConversation_cases:
  "(\<exists>err. appendToConversation env message w
            = (Some (MemoryError (''Failed to append to list: '' @ err)),
               logCall AppendToConversation w))
   \<or> appendToConversation env message w
       = (None, logCall AppendToConversation (w\<lparr>conversation := conversation w @ [message]\<rparr>))"
  by (cases "rpushError env (conversation w) message") (simp_all add: appendToConversation_def)

lemma storeInteraction_cases:
  "(\<exists>err. storeInteraction env interaction w
            = (Some (MemoryError (''Failed to store episodic memory: '' @ err)),
               logCall StoreInteraction w))
   \<or> storeInteraction env interaction w
       = (None, logCall StoreInteraction (w\<lparr>interactions := interactions w @ [interaction]\<rparr>))"
  by (cases "putItemError env (interactions w) interaction") (simp_all add: storeInteraction_def)

lemma persistTurn_writes_through:
  assumes "\<And>stored message. rpushError env stored message = None"
    and "\<And>stored interaction. putItemError env stored interaction = None"
  shows "fst (persistTurn env agentConfig userMsg depthArg ex w) = None"
  by (simp add: persistTurn_def appendToConversation_def storeInteraction_def assms)

lemma persistTurn_returned:
  assumes "fst (persistTurn env agentConfig userMsg depthArg ex w) = None"
  shows "conversation (snd (persistTurn env agentConfig userMsg depthArg ex w))
           = conversation w @ [\<lparr>role = ''user'', body = Str userMsg\<rparr>] @
             (if truthy (agentResponse ex)
              then [\<lparr>role = ''assistant'', body = Str (textOf (agentResponse ex))\<rparr>] else [])"
    and "interactions (snd (persistTurn env agentConfig userMsg depthArg ex w))
           = interactions w @
             (if truthy (agentResponse ex)
              then [\<lparr>inAgentId = configId agentConfig, inUserMessage = userMsg,
                     inAgentResponse = textOf (agentResponse ex),
                     inToolsUsed = map tcName (toolCalls ex),
                     inOutcome = (if executionStatus ex = COMPLETED then ''success'' else ''failed''),
                     inImportance = (if depthArg = 0 then 6 / 10 else 4 / 10)\<rparr>]
              else [])"
  using assms
  by (auto simp: persistTurn_def appendToConversation_def storeInteraction_def logCall_def
           split: option.splits if_splits)

lemma afterLoop_returned:
  "afterLoop env agentConfig userMsg depthArg (None, n, st)
     = (case persistTurn env agentConfig userMsg depthArg
               (if n \<ge> maxIterations
                then (execution st)\<lparr>executionStatus := FAILED,
                                    errorMessage := Some ''Max iterations exceeded''\<rparr>
                else execution st) (world st) of
          (Some e, w1) \<Rightarrow>
            exceptHandler e
              (if n \<ge> maxIterations
               then (execution st)\<lparr>executionStatus := FAILED,
                                   errorMessage := Some ''Max iterations exceeded''\<rparr>
               else execution st) w1
        | (None, w1) \<Rightarrow>
            (None,
             if n \<ge> maxIterations
             then (execution st)\<lparr>executionStatus := FAILED,
                                 errorMessage := Some ''Max iterations exceeded''\<rparr>
             else execution st, w1))"
  by (simp add: afterLoop_def Let_def)

lemma initialLoopState_simps:
  "loopTokens (initialLoopState userMsg ex w) = 0"
  "execution (initialLoopState userMsg ex w) = ex"
  "conversation (world (initialLoopState userMsg ex w)) = conversation w"
  "interactions (world (initialLoopState userMsg ex w)) = interactions w"
  "activeExecutions (world (initialLoopState userMsg ex w)) = activeExecutions w"
  "calls (world (initialLoopState userMsg ex w))
     = calls w @ [GetToolsForAgent, RetrieveContext, GetConversationHistory]"
  by (simp_all add: initialLoopState_def logCall_def Let_def)

text \<open>
  C8. When the depth has reached the configured maximum, \<^verbatim>\<open>execute\<close> raises
  \<^verbatim>\<open>RecursionDepthExceeded\<close> and leaves the world as it was: no call to a
  collaborator is logged, nothing is written to memory and no execution is registered.
\<close>

theorem execute_depth_exceeded:
  "depthArg \<ge> maxRecursionDepth env \<Longrightarrow>
   execute env agentConfig userMsg session authToken parentId depthArg w
     = (Inl (RecursionDepthExceeded depthArg (maxRecursionDepth env)), w)"
  by (simp add: execute_def)

theorem execute_depth_exceeded_witness:
  "execute (envWith answerAtOnce) agent0 ''hi'' ''s'' None None 5 world0
     = (Inl (RecursionDepthExceeded 5 5), world0)"
proof -
  have h: "(5::int) \<ge> maxRecursionDepth (envWith answerAtOnce)"
    by (simp add: envWith_def)
  show ?thesis
    using execute_depth_exceeded [OF h, of agent0 "''hi''" "''s''" None None world0]
    by (simp add: envWith_def)
qed


section \<open>Agent turn: the token ceiling\<close>

lemma toolIteration_loopTokens:
  "loopTokens (toolIteration env tools auth st response) = loopTokens st + usageOf response"
  by (simp add: toolIteration_def runToolCalls_keeps)

lemma whileLoop_rounds_raise:
  assumes "toolRounds env tools sp auth st responses"
    and "iterations + length responses < maxIterations"
    and "invokeModel env sp (messages (afterRounds env tools auth st responses)) = Inr response"
    and "loopTokens st + sum_list (map usageOf responses) + usageOf response > maxTokenLimit env"
  shows "whileLoop env tools sp auth iterations st
           = (Some (TokenLimitExceeded
                      (loopTokens st + sum_list (map usageOf responses) + usageOf response)
                      (maxTokenLimit env)),
              iterations + length responses + 1,
              (afterRounds env tools auth st responses)
                \<lparr>world := logCall InvokeModel (world (afterRounds env tools auth st responses)),
                 loopTokens := loopTokens st + sum_list (map usageOf responses)
                                 + usageOf response\<rparr>)"
  using assms
proof (induction responses arbitrary: iterations st)
  case Nil
  have lt: "iterations < maxIterations" using Nil.prems(2) by simp
  have inv: "invokeModel env sp (messages st) = Inr response" using Nil.prems(3) by simp
  have over: "loopTokens st + usageOf response > maxTokenLimit env" using Nil.prems(4) by simp
  show ?case
    by (simp add: whileLoop_raise_step [OF lt inv over])
next
  case (Cons r rs)
  let ?st1 = "toolIteration env tools auth st r"
  have lt: "iterations < maxIterations" using Cons.prems(2) by simp
  have inv: "invokeModel env sp (messages st) = Inr r"
    and within: "\<not> loopTokens st + usageOf r > maxTokenLimit env"
    and calls: "extractToolCalls (blocks r) \<noteq> []"
    and rest: "toolRounds env tools sp auth ?st1 rs"
    using Cons.prems(1) by simp_all
  have step: "whileLoop env tools sp auth iterations st
                = whileLoop env tools sp auth (iterations + 1) ?st1"
    unfolding toolIteration_def by (rule whileLoop_tool_step [OF lt inv within calls])
  have n: "(iterations + 1) + length rs < maxIterations" using Cons.prems(2) by simp
  have i: "invokeModel env sp (messages (afterRounds env tools auth ?st1 rs)) = Inr response"
    using Cons.prems(3) by simp
  have t: "loopTokens ?st1 + sum_list (map usageOf rs) + usageOf response
             = loopTokens st + sum_list (map usageOf (r # rs)) + usageOf response"
    by (simp add: toolIteration_loopTokens)
  have o: "loopTokens ?st1 + sum_list (map usageOf rs) + usageOf response > maxTokenLimit env"
    using Cons.prems(4) unfolding t .
  show ?case
    unfolding step Cons.IH [OF rest n i o] t by simp
qed

text \<open>
  C7. From any state of the loop: let the model ask for tools in a number of consecutive
  iterations, the usage accumulated with each of these responses staying within the
  ceiling, and let the usage of the next response take the accumulated total (the total
  of the state plus the usage of every response since) above the ceiling, with iterations
  left for all these calls. Then the loop is left by \<^verbatim>\<open>TokenLimitExceeded\<close> carrying
  that total, the execution record is marked failed with the message of the exception,
  \<^verbatim>\<open>AgentExecutionError\<close> is raised to the caller, and the last call in the log is the
  model call that crossed the ceiling: the tools it asks for are not run and the model
  is not called again.
\<close>

theorem cumulative_usage_aborts_turn:
  assumes "toolRounds env tools sp auth st responses"
    and "iterations + length responses < maxIterations"
    and "invokeModel env sp (messages (afterRounds env tools auth st responses)) = Inr response"
    and "loopTokens st + sum_list (map usageOf responses) + usageOf response > maxTokenLimit env"
  shows "fst (whileLoop env tools sp auth iterations st)
           = Some (TokenLimitExceeded
                     (loopTokens st + sum_list (map usageOf responses) + usageOf response)
                     (maxTokenLimit env))
         \<and> turnFrom env agentConfig tools sp userMsg auth depthArg iterations st
           = (Some (AgentExecutionError
                      (''Agent execution failed: '' @
                       strExn (TokenLimitExceeded
                                 (loopTokens st + sum_list (map usageOf responses)
                                    + usageOf response)
                                 (maxTokenLimit env)))),
              (execution (afterRounds env tools auth st responses))
                \<lparr>executionStatus := FAILED,
                 errorMessage := Some (strExn (TokenLimitExceeded
                                   (loopTokens st + sum_list (map usageOf responses)
                                      + usageOf response)
                                   (maxTokenLimit env)))\<rparr>,
              (world (afterRounds env tools auth st responses))
                \<lparr>calls := calls (world (afterRounds env tools auth st responses))
                            @ [InvokeModel]\<rparr>)"
  by (simp add: turnFrom_def whileLoop_rounds_raise [OF assms] afterLoop_raised logCall_def)

theorem cumulative_usage_aborts_turn_witness:
  "toolRounds (envWith hungryModel) [\<lparr>name = ''search''\<rparr>] ''p'' None startState
     [toolUseResponse 60000]
   \<and> fst (whileLoop (envWith hungryModel) [\<lparr>name = ''search''\<rparr>] ''p'' None 0 startState)
       = Some (TokenLimitExceeded 120000 100000)
   \<and> fst (turnFrom (envWith hungryModel) agent0 [\<lparr>name = ''search''\<rparr>] ''p'' ''hi'' None 0 0
             startState)
       = Some (AgentExecutionError ''Agent execution failed: Token limit exceeded: 120000/100000'')
   \<and> executionStatus (fst (snd (turnFrom (envWith hungryModel) agent0 [\<lparr>name = ''search''\<rparr>]
                                   ''p'' ''hi'' None 0 0 startState))) = FAILED
   \<and> errorMessage (fst (snd (turnFrom (envWith hungryModel) agent0 [\<lparr>name = ''search''\<rparr>]
                                ''p'' ''hi'' None 0 0 startState)))
       = Some ''Token limit exceeded: 120000/100000''
   \<and> calls (snd (snd (turnFrom (envWith hungryModel) agent0 [\<lparr>name = ''search''\<rparr>]
                         ''p'' ''hi'' None 0 0 startState)))
       = [InvokeModel, ToolExecute ''search'', InvokeModel]"
proof -
  let ?env = "envWith hungryModel"
  let ?tools = "[\<lparr>name = ''search''\<rparr>]"
  let ?r = "toolUseResponse 60000"
  have inv: "\<And>ms. invokeModel ?env ''p'' ms = Inr ?r"
    by (simp add: envWith_def hungryModel_def)
  have lim: "maxTokenLimit ?env = 100000"
    by (simp add: envWith_def)
  have u: "usageOf ?r = 60000"
    by (simp add: usageOf_def toolUseResponse_def)
  have tc: "extractToolCalls (blocks ?r) \<noteq> []"
    by (simp add: toolUseResponse_def)
  have t0: "loopTokens startState = 0"
    by (simp add: startState_def)
  have h1: "toolRounds ?env ?tools ''p'' None startState [?r]"
    by (simp add: inv lim u tc t0)
  have h2: "(0::nat) + length [?r] < maxIterations"
    by (simp add: maxIterations_def)
  have h3: "invokeModel ?env ''p'' (messages (afterRounds ?env ?tools None startState [?r])) = Inr ?r"
    by (rule inv)
  have h4: "loopTokens startState + sum_list (map usageOf [?r]) + usageOf ?r > maxTokenLimit ?env"
    by (simp add: t0 u lim)
  have v: "loopTokens startState + sum_list (map usageOf [?r]) + usageOf ?r = 120000"
    by (simp add: t0 u)
  have c: "calls (world (toolIteration ?env ?tools None startState ?r))
             = [InvokeModel, ToolExecute ''search'']"
    by (simp add: toolIteration_def toolUseResponse_def startState_def world0_def envWith_def
          logCall_def)
  have s: "strExn (TokenLimitExceeded 120000 100000) = ''Token limit exceeded: 120000/100000''"
    by (simp add: showInt_120000 showInt_100000)
  note abort = cumulative_usage_aborts_turn [OF h1 h2 h3 h4, of agent0 "''hi''" 0,
                 unfolded v lim s]
  show ?thesis
    using abort by (simp add: inv lim u tc t0 c)
qed

section \<open>Agent turn: the iteration limit\<close>

text \<open>
  C10. From any state of the loop with exactly one iteration left: if the model call
  returns within the token ceiling and asks for no tool, the loop marks the record
  completed, and the turn ends with a failed record that still carries the final text.
  If the storage writes of the turn go through, the record is returned, not raised, and
  its message is "Max iterations exceeded".
\<close>

theorem final_answer_on_last_iteration:
  assumes "iterations + 1 = maxIterations"
    and "invokeModel env sp (messages st) = Inr response"
    and "\<not> loopTokens st + usageOf response > maxTokenLimit env"
    and "extractToolCalls (blocks response) = []"
  shows "executionStatus (execution (snd (snd (whileLoop env tools sp auth iterations st))))
           = COMPLETED
         \<and> executionStatus (fst (snd (turnFrom env agentConfig tools sp userMsg auth depthArg
                                         iterations st))) = FAILED
         \<and> agentResponse (fst (snd (turnFrom env agentConfig tools sp userMsg auth depthArg
                                       iterations st)))
           = Some (extractTextResponse (blocks response))
         \<and> ((\<forall>stored message. rpushError env stored message = None)
              \<and> (\<forall>stored interaction. putItemError env stored interaction = None)
             \<longrightarrow> fst (turnFrom env agentConfig tools sp userMsg auth depthArg iterations st) = None
                 \<and> errorMessage (fst (snd (turnFrom env agentConfig tools sp userMsg auth depthArg
                                              iterations st)))
                   = Some ''Max iterations exceeded'')"
proof -
  have lt: "iterations < maxIterations" using assms(1) by simp
  note loop = whileLoop_final_step [OF lt assms(2) assms(3) assms(4), of tools auth]
  let ?st = "st\<lparr>world := logCall InvokeModel (world st),
                 loopTokens := loopTokens st + usageOf response,
                 execution := (execution st)
                   \<lparr>agentResponse := Some (extractTextResponse (blocks response)),
                    executionStatus := COMPLETED,
                    tokensUsed := loopTokens st + usageOf response\<rparr>\<rparr>"
  let ?ex1 = "(execution ?st)\<lparr>executionStatus := FAILED,
                               errorMessage := Some ''Max iterations exceeded''\<rparr>"
  let ?p = "persistTurn env agentConfig userMsg depthArg ?ex1 (world ?st)"
  have turn: "turnFrom env agentConfig tools sp userMsg auth depthArg iterations st
                = (case ?p of (Some e, w1) \<Rightarrow> exceptHandler e ?ex1 w1
                            | (None, w1) \<Rightarrow> (None, ?ex1, w1))"
    using assms(1) by (simp add: turnFrom_def loop afterLoop_returned)
  have a: "executionStatus (execution (snd (snd (whileLoop env tools sp auth iterations st))))
             = COMPLETED"
    by (simp add: loop)
  obtain pe w1 where p: "?p = (pe, w1)"
    by (cases ?p) auto
  have b: "executionStatus (fst (snd (turnFrom env agentConfig tools sp userMsg auth depthArg
                                         iterations st))) = FAILED"
    unfolding turn p by (cases pe) (simp_all add: exceptHandler_def)
  have c: "agentResponse (fst (snd (turnFrom env agentConfig tools sp userMsg auth depthArg
                                       iterations st)))
             = Some (extractTextResponse (blocks response))"
    unfolding turn p by (cases pe) (simp_all add: exceptHandler_def)
  have d: "fst (turnFrom env agentConfig tools sp userMsg auth depthArg iterations st) = None
           \<and> errorMessage (fst (snd (turnFrom env agentConfig tools sp userMsg auth depthArg
                                        iterations st)))
             = Some ''Max iterations exceeded''"
    if w: "\<forall>stored message. rpushError env stored message = None"
          "\<forall>stored interaction. putItemError env stored interaction = None"
  proof -
    have "fst ?p = None"
      by (rule persistTurn_writes_through) (simp_all add: w)
    then have "pe = None" unfolding p by simp
    then show ?thesis
      unfolding turn p by simp
  qed
  show ?thesis
    using a b c d by blast
qed

theorem final_answer_on_last_iteration_witness:
  "executionStatus (execution (snd (snd (whileLoop (envWith answerOnTenth) [] ''p'' None 9 lateState))))
     = COMPLETED
   \<and> fst (turnFrom (envWith answerOnTenth) agent0 [] ''p'' ''hi'' None 0 9 lateState) = None
   \<and> executionStatus (fst (snd (turnFrom (envWith answerOnTenth) agent0 [] ''p'' ''hi'' None 0 9
                                   lateState))) = FAILED
   \<and> errorMessage (fst (snd (turnFrom (envWith answerOnTenth) agent0 [] ''p'' ''hi'' None 0 9
                                lateState))) = Some ''Max iterations exceeded''
   \<and> agentResponse (fst (snd (turnFrom (envWith answerOnTenth) agent0 [] ''p'' ''hi'' None 0 9
                                 lateState))) = Some ''late answer''"
proof -
  have h1: "(9::nat) + 1 = maxIterations" by (simp add: maxIterations_def)
  have h2: "invokeModel (envWith answerOnTenth) ''p'' (messages lateState)
              = Inr (textResponse ''late answer'' 10)"
    by (simp add: envWith_def answerOnTenth_def lateState_def)
  have h3: "\<not> loopTokens lateState + usageOf (textResponse ''late answer'' 10)
              > maxTokenLimit (envWith answerOnTenth)"
    by (simp add: lateState_def usageOf_def textResponse_def envWith_def)
  have h4: "extractToolCalls (blocks (textResponse ''late answer'' 10)) = []"
    by (simp add: textResponse_def)
  have t: "extractTextResponse (blocks (textResponse ''late answer'' 10)) = ''late answer''"
    by (simp add: textResponse_def)
  have w: "\<forall>stored message. rpushError (envWith answerOnTenth) stored message = None"
    "\<forall>stored interaction. putItemError (envWith answerOnTenth) stored interaction = None"
    by (simp_all add: envWith_def)
  show ?thesis
    using final_answer_on_last_iteration [OF h1 h2 h3 h4, of "[]" None agent0 "''hi''" 0] w
    by (simp add: t)
qed

lemma execute_via_loop:
  assumes "\<not> depthArg \<ge> maxRecursionDepth env"
  shows "execute env agentConfig userMsg session authToken parentId depthArg w
           = (case afterLoop env agentConfig userMsg depthArg
                     (loopResult env agentConfig userMsg session authToken parentId depthArg w) of
                (raised, ex1, w2) \<Rightarrow>
                  (case raised of None \<Rightarrow> Inr ex1 | Some e \<Rightarrow> Inl e,
                   w2\<lparr>activeExecutions := removeAll (newExecutionId env) (activeExecutions w2)\<rparr>))"
proof -
  have i: "exId (newExecution env agentConfig userMsg session parentId depthArg) = newExecutionId env"
    by (simp add: newExecution_def)
  show ?thesis
    using assms
    by (simp add: execute_def tryBlock_def turnFrom_def loopResult_def i Let_def)
qed

lemma loopResult_keeps:
  "conversation (world (snd (snd (loopResult env agentConfig userMsg session authToken
                                     parentId depthArg w)))) = conversation w"
  "interactions (world (snd (snd (loopResult env agentConfig userMsg session authToken
                                     parentId depthArg w)))) = interactions w"
  unfolding loopResult_def
  by (simp_all add: whileLoop_keeps initialLoopState_simps)

lemma execute_raised:
  assumes "\<not> depthArg \<ge> maxRecursionDepth env"
    and "fst (loopResult env agentConfig userMsg session authToken parentId depthArg w) = Some e"
  shows "fst (execute env agentConfig userMsg session authToken parentId depthArg w)
           = Inl (AgentExecutionError (''Agent execution failed: '' @ strExn e))"
    and "conversation (snd (execute env agentConfig userMsg session authToken parentId depthArg w))
           = conversation w"
    and "interactions (snd (execute env agentConfig userMsg session authToken parentId depthArg w))
           = interactions w"
proof -
  obtain n st where r:
    "loopResult env agentConfig userMsg session authToken parentId depthArg w = (Some e, n, st)"
    using assms(2)
    by (cases "loopResult env agentConfig userMsg session authToken parentId depthArg w") auto
  have k: "conversation (world st) = conversation w" "interactions (world st) = interactions w"
    using loopResult_keeps [of env agentConfig userMsg session authToken parentId depthArg w]
    by (simp_all add: r)
  show "fst (execute env agentConfig userMsg session authToken parentId depthArg w)
           = Inl (AgentExecutionError (''Agent execution failed: '' @ strExn e))"
    by (simp add: execute_via_loop [OF assms(1)] r afterLoop_raised)
  show "conversation (snd (execute env agentConfig userMsg session authToken parentId depthArg w))
           = conversation w"
    by (simp add: execute_via_loop [OF assms(1)] r afterLoop_raised k)
  show "interactions (snd (execute env agentConfig userMsg session authToken parentId depthArg w))
           = interactions w"
    by (simp add: execute_via_loop [OF assms(1)] r afterLoop_raised k)
qed

lemma hungry_loop:
  assumes "loopTokens st = 0"
  shows "fst (whileLoop (envWith hungryModel) tools sp auth 0 st)
           = Some (TokenLimitExceeded 120000 100000)"
proof -
  let ?env = "envWith hungryModel"
  let ?r = "toolUseResponse 60000"
  have inv: "\<And>ms. invokeModel ?env sp ms = Inr ?r"
    by (simp add: envWith_def hungryModel_def)
  have lim: "maxTokenLimit ?env = 100000"
    by (simp add: envWith_def)
  have u: "usageOf ?r = 60000"
    by (simp add: usageOf_def toolUseResponse_def)
  have tc: "extractToolCalls (blocks ?r) \<noteq> []"
    by (simp add: toolUseResponse_def)
  have lt0: "(0::nat) < maxIterations" and lt1: "(0::nat) + 1 < maxIterations"
    by (simp_all add: maxIterations_def)
  have no: "\<not> loopTokens st + usageOf ?r > maxTokenLimit ?env"
    using assms by (simp add: u lim)
  define st1 where "st1 =
    runToolCalls ?env tools auth (extractToolCalls (blocks ?r))
      (st\<lparr>world := logCall InvokeModel (world st),
          loopTokens := loopTokens st + usageOf ?r,
          messages := messages st @ [\<lparr>role = ''assistant'', body = Blocks (blocks ?r)\<rparr>]\<rparr>)"
  have step1: "whileLoop ?env tools sp auth 0 st = whileLoop ?env tools sp auth (0 + 1) st1"
    unfolding st1_def by (rule whileLoop_tool_step [OF lt0 inv no tc])
  have t1: "loopTokens st1 = 60000"
    unfolding st1_def using assms by (simp add: runToolCalls_keeps u)
  have over: "loopTokens st1 + usageOf ?r > maxTokenLimit ?env"
    by (simp add: t1 u lim)
  show ?thesis
    unfolding step1
    by (simp only: whileLoop_raise_step [OF lt1 inv over] t1 u lim fst_conv) simp
qed

lemma hungry_execute:
  assumes "depthArg < 5"
  shows "fst (execute (envWith hungryModel) agentConfig userMsg session authToken parentId depthArg w)
           = Inl (AgentExecutionError
                    ''Agent execution failed: Token limit exceeded: 120000/100000'')"
    and "conversation (snd (execute (envWith hungryModel) agentConfig userMsg session authToken
                              parentId depthArg w)) = conversation w"
    and "interactions (snd (execute (envWith hungryModel) agentConfig userMsg session authToken
                              parentId depthArg w)) = interactions w"
proof -
  have nd: "\<not> depthArg \<ge> maxRecursionDepth (envWith hungryModel)"
    using assms by (simp add: envWith_def)
  have l: "fst (loopResult (envWith hungryModel) agentConfig userMsg session authToken parentId
                  depthArg w) = Some (TokenLimitExceeded 120000 100000)"
    unfolding loopResult_def
    by (rule hungry_loop) (simp add: initialLoopState_simps)
  show "fst (execute (envWith hungryModel) agentConfig userMsg session authToken parentId depthArg w)
           = Inl (AgentExecutionError
                    ''Agent execution failed: Token limit exceeded: 120000/100000'')"
    using execute_raised(1) [OF nd l] by (simp add: showInt_120000 showInt_100000)
  show "conversation (snd (execute (envWith hungryModel) agentConfig userMsg session authToken
                              parentId depthArg w)) = conversation w"
    by (rule execute_raised(2) [OF nd l])
  show "interactions (snd (execute (envWith hungryModel) agentConfig userMsg session authToken
                              parentId depthArg w)) = interactions w"
    by (rule execute_raised(3) [OF nd l])
qed

text \<open>
  C3. A plan with the two sequential tasks A and B, where the turn of A exceeds the token
  ceiling: the exception of A leaves \<^verbatim>\<open>_executeParallelTasks\<close>, no result is recorded
  and B is never started. The same two tasks in the parallel list give a results mapping
  with an error entry for each.
\<close>

theorem sequential_failure_propagates:
  "(case executeParallelTasks hungryOutcome 10 \<lparr>sequential = [taskA, taskB], parallel = []\<rparr> of
      Some (Inl e) \<Rightarrow>
        e = AgentExecutionError ''Agent execution failed: Token limit exceeded: 120000/100000''
    | Some (Inr m) \<Rightarrow> False
    | None \<Rightarrow> False)
   \<and> phases (snd (runPlan hungryOutcome 10 \<lparr>sequential = [taskA, taskB], parallel = []\<rparr>))
       = [Single taskA]
   \<and> (case executeParallelTasks hungryOutcome 10 \<lparr>sequential = [], parallel = [taskA, taskB]\<rparr> of
        Some (Inr m) \<Rightarrow>
          m ''A'' = Some (ErrorEntry ''Agent execution failed: Token limit exceeded: 120000/100000'')
          \<and> m ''B'' = Some (ErrorEntry ''Agent execution failed: Token limit exceeded: 120000/100000'')
      | Some (Inl e) \<Rightarrow> False
      | None \<Rightarrow> False)"
proof -
  have out: "\<And>task. hungryOutcome task
      = Inl (AgentExecutionError ''Agent execution failed: Token limit exceeded: 120000/100000'')"
    by (simp add: hungryOutcome_def executeTask_def hungry_execute(1))
  show ?thesis
    by (simp add: executeParallelTasks_def runPlan_def runParallel_def out Let_def
          taskA_def taskB_def mkTask_def strExn.simps)
qed

section \<open>Agent turn: what is persisted\<close>

text \<open>
  C6 as stated does not hold. A turn at depth 0 passes the depth check (the limit is 5);
  its second model call takes the total to 120000 tokens, above the ceiling of 100000.
  The turn raises \<^verbatim>\<open>AgentExecutionError\<close>, and neither the conversation history nor
  the episodic store has received anything: the appends and \<^verbatim>\<open>storeInteraction\<close>
  stand after the loop inside the \<^verbatim>\<open>try\<close>, and the handler only marks the record
  and raises.
\<close>

theorem token_abort_persists_nothing:
  "0 < maxRecursionDepth (envWith hungryModel)
   \<and> fst (execute (envWith hungryModel) agent0 ''hi'' ''s'' None None 0 world0)
       = Inl (AgentExecutionError ''Agent execution failed: Token limit exceeded: 120000/100000'')
   \<and> conversation (snd (execute (envWith hungryModel) agent0 ''hi'' ''s'' None None 0 world0)) = []
   \<and> interactions (snd (execute (envWith hungryModel) agent0 ''hi'' ''s'' None None 0 world0)) = []"
proof -
  have d: "(0::int) < 5"
    by simp
  have m: "0 < maxRecursionDepth (envWith hungryModel)"
    by (simp add: envWith_def)
  have c: "conversation world0 = []" "interactions world0 = []"
    by (simp_all add: world0_def)
  show ?thesis
    by (simp only: hungry_execute [OF d] m c simp_thms)
qed

text \<open>
  C6, amended. For every turn that returns its execution record (completed, or failed by
  the iteration limit): the user message is appended to the conversation history; and if
  the response text is present and not empty, the assistant message is appended after it
  and one episodic record is stored, with the outcome \<open>success\<close> for a completed turn and
  \<open>failed\<close> otherwise. With no response text nothing is stored in the episodic store.
\<close>

theorem execute_returns_persists:
  assumes "fst (execute env agentConfig userMsg session authToken parentId depthArg w) = Inr ex"
  shows "conversation (snd (execute env agentConfig userMsg session authToken parentId depthArg w))
           = conversation w @ [\<lparr>role = ''user'', body = Str userMsg\<rparr>] @
             (if truthy (agentResponse ex)
              then [\<lparr>role = ''assistant'', body = Str (textOf (agentResponse ex))\<rparr>] else [])
         \<and> interactions (snd (execute env agentConfig userMsg session authToken parentId depthArg w))
           = interactions w @
             (if truthy (agentResponse ex)
              then [\<lparr>inAgentId = configId agentConfig, inUserMessage = userMsg,
                     inAgentResponse = textOf (agentResponse ex),
                     inToolsUsed = map tcName (toolCalls ex),
                     inOutcome = (if executionStatus ex = COMPLETED then ''success'' else ''failed''),
                     inImportance = (if depthArg = 0 then 6 / 10 else 4 / 10)\<rparr>]
              else [])"
proof -
  have nd: "\<not> depthArg \<ge> maxRecursionDepth env"
    using assms by (auto simp: execute_def)
  obtain raised n st where r:
    "loopResult env agentConfig userMsg session authToken parentId depthArg w = (raised, n, st)"
    by (cases "loopResult env agentConfig userMsg session authToken parentId depthArg w") auto
  have none: "raised = None"
  proof (cases raised)
    case None
    then show ?thesis .
  next
    case (Some e)
    then show ?thesis
      using assms by (simp add: execute_via_loop [OF nd] r afterLoop_raised)
  qed
  have k: "conversation (world st) = conversation w" "interactions (world st) = interactions w"
    using loopResult_keeps [of env agentConfig userMsg session authToken parentId depthArg w]
    by (simp_all add: r)
  define ex1 where "ex1 =
    (if n \<ge> maxIterations
     then (execution st)\<lparr>executionStatus := FAILED,
                         errorMessage := Some ''Max iterations exceeded''\<rparr>
     else execution st)"
  obtain pe w1 where p:
    "persistTurn env agentConfig userMsg depthArg ex1 (world st) = (pe, w1)"
    by (cases "persistTurn env agentConfig userMsg depthArg ex1 (world st)") auto
  have al: "afterLoop env agentConfig userMsg depthArg (None, n, st)
              = (case pe of Some e \<Rightarrow> exceptHandler e ex1 w1 | None \<Rightarrow> (None, ex1, w1))"
    unfolding afterLoop_returned ex1_def [symmetric] p by (cases pe) simp_all
  have pn: "pe = None"
  proof (cases pe)
    case None
    then show ?thesis .
  next
    case (Some e)
    then show ?thesis
      using assms by (simp add: execute_via_loop [OF nd] r none al exceptHandler_def)
  qed
  have e: "ex = ex1"
    using assms by (simp add: execute_via_loop [OF nd] r none al pn)
  have s: "conversation (snd (execute env agentConfig userMsg session authToken parentId depthArg w))
             = conversation w1"
    "interactions (snd (execute env agentConfig userMsg session authToken parentId depthArg w))
             = interactions w1"
    by (simp_all add: execute_via_loop [OF nd] r none al pn)
  have f: "fst (persistTurn env agentConfig userMsg depthArg ex1 (world st)) = None"
    by (simp add: p pn)
  show ?thesis
    using persistTurn_returned [OF f] by (simp add: s e p k)
qed

theorem execute_returns_persists_witness:
  "fst (execute (envWith answerAtOnce) agent0 ''hi'' ''s'' None None 0 world0) = Inr helloExecution
   \<and> conversation (snd (execute (envWith answerAtOnce) agent0 ''hi'' ''s'' None None 0 world0))
       = [\<lparr>role = ''user'', body = Str ''hi''\<rparr>, \<lparr>role = ''assistant'', body = Str ''hello''\<rparr>]
   \<and> interactions (snd (execute (envWith answerAtOnce) agent0 ''hi'' ''s'' None None 0 world0))
       = [\<lparr>inAgentId = ''agent-0'', inUserMessage = ''hi'', inAgentResponse = ''hello'',
           inToolsUsed = [], inOutcome = ''success'', inImportance = 6 / 10\<rparr>]"
proof -
  let ?env = "envWith answerAtOnce"
  let ?r = "textResponse ''hello'' 10"
  have nd: "\<not> (0::int) \<ge> maxRecursionDepth ?env"
    by (simp add: envWith_def)
  have lt: "(0::nat) < maxIterations"
    by (simp add: maxIterations_def)
  have inv: "\<And>sp ms. invokeModel ?env sp ms = Inr ?r"
    by (simp add: envWith_def answerAtOnce_def)
  have u: "usageOf ?r = 10"
    by (simp add: usageOf_def textResponse_def)
  have lim: "maxTokenLimit ?env = 100000"
    by (simp add: envWith_def)
  have tc: "extractToolCalls (blocks ?r) = []"
    by (simp add: textResponse_def)
  have tx: "extractTextResponse (blocks ?r) = ''hello''"
    by (simp add: textResponse_def)
  have wr: "\<And>stored message. rpushError ?env stored message = None"
    "\<And>stored interaction. putItemError ?env stored interaction = None"
    by (simp_all add: envWith_def)
  obtain n st where lr: "loopResult ?env agent0 ''hi'' ''s'' None None 0 world0 = (None, n, st)"
    and n: "n = 1" and ex: "execution st = helloExecution"
    unfolding loopResult_def
    by (subst (asm) whileLoop_final_step [OF lt inv _ tc])
       (simp_all add: initialLoopState_simps u lim tx helloExecution_def execution0_def)
  obtain w1 where p:
    "persistTurn ?env agent0 ''hi'' 0 helloExecution (world st) = (None, w1)"
    using persistTurn_writes_through [OF wr, of agent0 "''hi''" 0 helloExecution "world st"]
    by (cases "persistTurn ?env agent0 ''hi'' 0 helloExecution (world st)") auto
  have h: "fst (execute ?env agent0 ''hi'' ''s'' None None 0 world0) = Inr helloExecution"
    by (simp add: execute_via_loop [OF nd] lr afterLoop_returned n maxIterations_def ex p)
  have e: "agentResponse helloExecution = Some ''hello''"
    "executionStatus helloExecution = COMPLETED" "toolCalls helloExecution = []"
    by (simp_all add: helloExecution_def execution0_def newExecution_def)
  have c: "conversation world0 = []" "interactions world0 = []" "configId agent0 = ''agent-0''"
    by (simp_all add: world0_def agent0_def)
  show ?thesis
    using execute_returns_persists [OF h]
    by (simp add: h e c truthy_def textOf_def)
qed

text \<open>
  A turn that raises may have persisted part of what it writes: when the store of the
  episodic record raises, the turn ends with \<^verbatim>\<open>AgentExecutionError\<close> after the user
  message and the assistant message have been appended to the conversation history.
\<close>

lemma store_failure_after_appends:
  "fst (execute envStoreFails agent0 ''hi'' ''s'' None None 0 world0)
     = Inl (AgentExecutionError
              ''Agent execution failed: Failed to store episodic memory: down'')
   \<and> conversation (snd (execute envStoreFails agent0 ''hi'' ''s'' None None 0 world0))
       = [\<lparr>role = ''user'', body = Str ''hi''\<rparr>, \<lparr>role = ''assistant'', body = Str ''hello''\<rparr>]
   \<and> interactions (snd (execute envStoreFails agent0 ''hi'' ''s'' None None 0 world0)) = []"
proof -
  let ?env = "envStoreFails"
  let ?r = "textResponse ''hello'' 10"
  have nd: "\<not> (0::int) \<ge> maxRecursionDepth ?env"
    by (simp add: envStoreFails_def envWith_def)
  have lt: "(0::nat) < maxIterations"
    by (simp add: maxIterations_def)
  have inv: "\<And>sp ms. invokeModel ?env sp ms = Inr ?r"
    by (simp add: envStoreFails_def envWith_def answerAtOnce_def)
  have u: "usageOf ?r = 10"
    by (simp add: usageOf_def textResponse_def)
  have lim: "maxTokenLimit ?env = 100000"
    by (simp add: envStoreFails_def envWith_def)
  have tc: "extractToolCalls (blocks ?r) = []"
    by (simp add: textResponse_def)
  have tx: "extractTextResponse (blocks ?r) = ''hello''"
    by (simp add: textResponse_def)
  have wr: "\<And>stored message. rpushError ?env stored message = None"
    "\<And>stored interaction. putItemError ?env stored interaction = Some ''down''"
    by (simp_all add: envStoreFails_def envWith_def)
  obtain n st where lr: "loopResult ?env agent0 ''hi'' ''s'' None None 0 world0 = (None, n, st)"
    and n: "n = 1" and ar: "agentResponse (execution st) = Some ''hello''"
    and k: "conversation (world st) = []" "interactions (world st) = []"
    unfolding loopResult_def
    by (subst (asm) whileLoop_final_step [OF lt inv _ tc])
       (simp_all add: initialLoopState_simps u lim tx logCall_def world0_def)
  show ?thesis
    by (simp add: execute_via_loop [OF nd] lr afterLoop_returned n maxIterations_def
          persistTurn_def appendToConversation_def storeInteraction_def wr ar k
          truthy_def textOf_def exceptHandler_def logCall_def)
qed

section \<open>Context assembly: the token budget\<close>

lemma appendWhileFits_total:
  "snd (appendWhileFits maxTokens memories (acc, runningTotal)) = runningTotal
   \<or> snd (appendWhileFits maxTokens memories (acc, runningTotal)) < maxTokens"
proof (induction memories arbitrary: acc runningTotal)
  case Nil
  show ?case by simp
next
  case (Cons memory memories)
  show ?case
  proof (cases "runningTotal + countTokens (content memory) < maxTokens")
    case True
    then show ?thesis
      using Cons [of "acc @ [memory]" "runningTotal + countTokens (content memory)"]
      by (auto simp: Let_def)
  next
    case False
    then show ?thesis by (simp add: Let_def)
  qed
qed

lemma appendWhileFits_bound:
  "runningTotal \<le> maxTokens
     \<Longrightarrow> snd (appendWhileFits maxTokens memories (acc, runningTotal)) \<le> maxTokens"
  using appendWhileFits_total [of maxTokens memories acc runningTotal] by auto

lemma afterEpisodic_total:
  "totalTokens (afterEpisodic stores maxTokens)
     = (if countTokens (workingStr stores) < maxTokens
        then snd (appendWhileFits maxTokens (take 10 (episodicStored stores))
                    ([], countTokens (workingStr stores)))
        else countTokens (workingStr stores))"
  by (simp add: afterEpisodic_def afterWorking_def Let_def case_prod_beta)

lemma afterEpisodic_bound:
  assumes "countTokens (workingStr stores) \<le> maxTokens"
  shows "totalTokens (afterEpisodic stores maxTokens) \<le> maxTokens"
  using assms
        appendWhileFits_bound [of "countTokens (workingStr stores)" maxTokens
          "take 10 (episodicStored stores)" "[]"]
  by (simp add: afterEpisodic_total)

lemma afterSemantic_total:
  "totalTokens (afterSemantic stores maxTokens)
     = (if 10 * totalTokens (afterEpisodic stores maxTokens) < 7 * maxTokens
        then snd (appendWhileFits maxTokens
                    (rankMemories stores
                       (take (topKSemanticRetrieval stores) (semanticStored stores)))
                    ([], totalTokens (afterEpisodic stores maxTokens)))
        else totalTokens (afterEpisodic stores maxTokens))"
  by (simp add: afterSemantic_def Let_def case_prod_beta)

lemma afterSemantic_bound:
  assumes "countTokens (workingStr stores) \<le> maxTokens"
  shows "totalTokens (afterSemantic stores maxTokens) \<le> maxTokens"
  using afterEpisodic_bound [OF assms]
        appendWhileFits_bound [of "totalTokens (afterEpisodic stores maxTokens)" maxTokens
          "rankMemories stores (take (topKSemanticRetrieval stores) (semanticStored stores))" "[]"]
  by (simp add: afterSemantic_total)

lemma countTokens_replicate:
  "countTokens (replicate n c) = int n div 4"
  by (simp add: countTokens_def)

text \<open>
  The budget holds whenever the working snapshot fits into it, and fails whenever the
  snapshot alone costs more: the bundle then reports the cost of the snapshot.
\<close>

lemma retrieveContext_within_budget:
  assumes "countTokens (workingStr stores) \<le> maxTokens"
  shows "totalTokens (retrieveContext stores query maxTokens) \<le> maxTokens"
  using afterSemantic_bound [OF assms]
  by (simp add: retrieveContext_def Let_def)

lemma retrieveContext_over_budget:
  assumes "maxTokens < countTokens (workingStr stores)"
  shows "totalTokens (retrieveContext stores query maxTokens) = countTokens (workingStr stores)"
    and "\<not> totalTokens (retrieveContext stores query maxTokens) \<le> maxTokens"
proof -
  have nonneg: "0 \<le> countTokens (workingStr stores)"
    by (simp add: countTokens_def)
  have e: "totalTokens (afterEpisodic stores maxTokens) = countTokens (workingStr stores)"
    using assms by (simp add: afterEpisodic_total)
  have g: "\<not> 10 * countTokens (workingStr stores) < 7 * maxTokens"
    using assms nonneg by linarith
  have s: "totalTokens (afterSemantic stores maxTokens) = countTokens (workingStr stores)"
    using g by (simp add: afterSemantic_total e)
  show "totalTokens (retrieveContext stores query maxTokens) = countTokens (workingStr stores)"
    by (simp add: retrieveContext_def Let_def s)
  then show "\<not> totalTokens (retrieveContext stores query maxTokens) \<le> maxTokens"
    using assms by simp
qed

text \<open>
  C5. The claim fails on the code. The tokens of the working snapshot are added before
  any comparison with the budget, and only the episodic and the semantic loop stop on
  overflow: with a snapshot of 40 characters (10 tokens) and a budget of 5 the bundle
  reports 10 tokens.
\<close>

theorem retrieveContext_exceeds_budget:
  "totalTokens (retrieveContext (storesWithWorking 40) ''q'' 5) = 10
   \<and> \<not> totalTokens (retrieveContext (storesWithWorking 40) ''q'' 5) \<le> 5"
proof -
  have w: "countTokens (workingStr (storesWithWorking 40)) = 10"
    by (simp add: storesWithWorking_def countTokens_replicate)
  have e: "totalTokens (afterEpisodic (storesWithWorking 40) 5) = 10"
    by (simp add: afterEpisodic_total w)
  have s: "totalTokens (afterSemantic (storesWithWorking 40) 5) = 10"
    by (simp add: afterSemantic_total e)
  show ?thesis
    by (simp add: retrieveContext_def Let_def s)
qed

section \<open>Context assembly: the semantic tier\<close>

lemma afterEpisodic_fields:
  "semantic (afterEpisodic stores maxTokens) = []"
  "storeCalls (afterEpisodic stores maxTokens)
     = (if countTokens (workingStr stores) < maxTokens
        then [WorkingGetAll, EpisodicRetrieveBySession] else [WorkingGetAll])"
  by (simp_all add: afterEpisodic_def afterWorking_def Let_def case_prod_beta)

lemma afterSemantic_fields:
  "storeCalls (afterSemantic stores maxTokens)
     = (if 10 * totalTokens (afterEpisodic stores maxTokens) < 7 * maxTokens
        then storeCalls (afterEpisodic stores maxTokens) @ [SemanticSearch]
        else storeCalls (afterEpisodic stores maxTokens))"
  "semantic (afterSemantic stores maxTokens)
     = (if 10 * totalTokens (afterEpisodic stores maxTokens) < 7 * maxTokens
        then fst (appendWhileFits maxTokens
                    (rankMemories stores
                       (take (topKSemanticRetrieval stores) (semanticStored stores)))
                    ([], totalTokens (afterEpisodic stores maxTokens)))
        else semantic (afterEpisodic stores maxTokens))"
  by (simp_all add: afterSemantic_def Let_def case_prod_beta)

lemma retrieveContext_fields:
  "storeCalls (retrieveContext stores query maxTokens)
     = storeCalls (afterSemantic stores maxTokens) @ [ProceduralSearch]"
  "semantic (retrieveContext stores query maxTokens) = semantic (afterSemantic stores maxTokens)"
  by (simp_all add: retrieveContext_def Let_def)

lemma storesExample_episodic_total:
  assumes "70 < maxTokens"
  shows "totalTokens (afterEpisodic storesExample maxTokens) = 70"
proof -
  have c: "countTokens (content (memoryOf 80)) = 20"
    by (simp add: memoryOf_def countTokens_replicate)
  have w: "countTokens (workingStr storesExample) = 10"
    by (simp add: storesExample_def countTokens_replicate)
  have e: "episodicStored storesExample = [memoryOf 80, memoryOf 80, memoryOf 80]"
    by (simp add: storesExample_def)
  show ?thesis
    using assms by (simp add: afterEpisodic_total w e c Let_def)
qed

text \<open>
  C9 as stated does not hold. With a budget of 120, the working snapshot (10 tokens) and
  the three episodic records (20 tokens each) consume 70 tokens; the remaining 50 tokens
  are not above 70% of the budget (84), and yet the semantic tier is fetched and its
  record appended.
\<close>

theorem semantic_fetched_below_seventy_remaining:
  "totalTokens (afterEpisodic storesExample 120) = 70
   \<and> \<not> 10 * (120 - totalTokens (afterEpisodic storesExample 120)) > 7 * 120
   \<and> SemanticSearch \<in> set (storeCalls (retrieveContext storesExample ''q'' 120))
   \<and> semantic (retrieveContext storesExample ''q'' 120) = [memoryOf 32]"
proof -
  have t: "totalTokens (afterEpisodic storesExample 120) = 70"
    by (rule storesExample_episodic_total) simp
  have c: "countTokens (content (memoryOf 32)) = 8"
    by (simp add: memoryOf_def countTokens_replicate)
  have s: "semanticStored storesExample = [memoryOf 32]"
    "topKSemanticRetrieval storesExample = 10" "rankMemories storesExample = (\<lambda>ms. ms)"
    by (simp_all add: storesExample_def)
  have a: "SemanticSearch \<in> set (storeCalls (retrieveContext storesExample ''q'' 120))"
    by (simp add: retrieveContext_fields afterSemantic_fields t)
  have b: "semantic (retrieveContext storesExample ''q'' 120) = [memoryOf 32]"
    by (simp add: retrieveContext_fields afterSemantic_fields t s c Let_def)
  show ?thesis
    by (simp add: t a b)
qed

text \<open>
  C9, amended. The semantic tier is fetched if and only if, after the working and
  episodic tiers, less than 70% of the budget has been consumed, that is the remaining
  budget is above 30% of the budget. If it is fetched, the ranked memories are appended
  under the stop-on-overflow rule; if not, the semantic list of the bundle is empty.
\<close>

theorem semantic_tier_guard:
  "(SemanticSearch \<in> set (storeCalls (retrieveContext stores query maxTokens)))
     = (3 * maxTokens < 10 * (maxTokens - totalTokens (afterEpisodic stores maxTokens)))
   \<and> semantic (retrieveContext stores query maxTokens)
     = (if 3 * maxTokens < 10 * (maxTokens - totalTokens (afterEpisodic stores maxTokens))
        then fst (appendWhileFits maxTokens
                    (rankMemories stores
                       (take (topKSemanticRetrieval stores) (semanticStored stores)))
                    ([], totalTokens (afterEpisodic stores maxTokens)))
        else [])"
proof -
  have g: "(10 * totalTokens (afterEpisodic stores maxTokens) < 7 * maxTokens)
             = (3 * maxTokens < 10 * (maxTokens - totalTokens (afterEpisodic stores maxTokens)))"
    by (simp add: algebra_simps)
  have a: "(SemanticSearch \<in> set (storeCalls (retrieveContext stores query maxTokens)))
             = (10 * totalTokens (afterEpisodic stores maxTokens) < 7 * maxTokens)"
    by (simp add: retrieveContext_fields afterSemantic_fields afterEpisodic_fields)
  have b: "semantic (retrieveContext stores query maxTokens)
     = (if 10 * totalTokens (afterEpisodic stores maxTokens) < 7 * maxTokens
        then fst (appendWhileFits maxTokens
                    (rankMemories stores
                       (take (topKSemanticRetrieval stores) (semanticStored stores)))
                    ([], totalTokens (afterEpisodic stores maxTokens)))
        else [])"
    by (simp add: retrieveContext_fields afterSemantic_fields afterEpisodic_fields)
  show ?thesis
    unfolding a b g by simp
qed

theorem semantic_tier_guard_witness:
  "totalTokens (afterEpisodic storesExample 100) = 70
   \<and> SemanticSearch \<notin> set (storeCalls (retrieveContext storesExample ''q'' 100))
   \<and> semantic (retrieveContext storesExample ''q'' 100) = []"
proof -
  have t: "totalTokens (afterEpisodic storesExample 100) = 70"
    by (rule storesExample_episodic_total) simp
  show ?thesis
    using semantic_tier_guard [of storesExample "''q''" 100]
    by (simp add: t)
qed

end
